theory Spec2Isabelle
  imports
    Complex_Main
    "HOL-Library.Char_ord"
    "HOL-Library.List_Lexorder"
    "HOL-Library.Product_Lexorder"
    "HOL-Library.Multiset"
begin

chapter \<open>Movie ratings analysis (\<^verbatim>\<open>VS CODE/mini project.py\<close>)\<close>

section \<open>Data model\<close>

text \<open>
  The script works on a pandas dataframe with the columns \<^verbatim>\<open>vote_average\<close>,
  \<^verbatim>\<open>genre\<close> and \<^verbatim>\<open>country\<close>; every other column of the CSV file is
  carried along untouched and never read, so a row is modelled by these three cells.

  A field of the \<^verbatim>\<open>vote_average\<close> column, as \<^verbatim>\<open>pd.read_csv\<close> delivers it, is
  either missing (an empty field or one of the library's NA spellings, read as NaN), a
  numeric literal, or some other text. Ratings are exact rationals here: the rounding of
  binary floating point is not modelled. A missing \<^verbatim>\<open>genre\<close> or
  \<^verbatim>\<open>country\<close> is \<open>None\<close>.
\<close>

datatype cell = Missing | Number rat | Text string

record raw_row =
  raw_vote_average :: cell
  raw_genre :: "string option"
  raw_country :: "string option"

text \<open>
  After \<^verbatim>\<open>pd.to_numeric\<close> the rating column is a float column: a number, or NaN
  (\<open>None\<close>).
\<close>

record row =
  vote_average :: "rat option"
  genre :: "string option"
  country :: "string option"

type_synonym dataframe = "row list"

text \<open>A pandas Series indexed by a key, as an association list in index order.\<close>

type_synonym 'k series = "('k \<times> rat option) list"

datatype exn =
  FileNotFoundError | UnicodeDecodeError | ParserError | KeyError | ValueError | IndexError
  | OSError

section \<open>Data ingestion: \<^verbatim>\<open>load_and_preprocess_data\<close>\<close>

text \<open>
  \<^verbatim>\<open>df.dropna(subset=['vote_average', 'genre', 'country'])\<close> keeps the rows in which
  none of the three cells is NaN.
\<close>

definition dropna :: "raw_row list \<Rightarrow> raw_row list" where
  "dropna df =
     filter (\<lambda>r. raw_vote_average r \<noteq> Missing \<and> raw_genre r \<noteq> None \<and> raw_country r \<noteq> None) df"

text \<open>
  \<^verbatim>\<open>pd.to_numeric(x, errors='coerce')\<close>: a numeric value is kept, invalid parsing is
  set to NaN.
\<close>

fun to_numeric :: "cell \<Rightarrow> rat option" where
  "to_numeric (Number v) = Some v"
| "to_numeric (Text s) = None"
| "to_numeric Missing = None"

text \<open>
  \<^verbatim>\<open>df['country'].replace({'United States': 'USA', 'United Kingdom': 'UK'})\<close>
  replaces a cell that equals a key of the dictionary by the key's value.
\<close>

definition replace_country :: "string option \<Rightarrow> string option" where
  "replace_country c =
     (if c = Some ''United States'' then Some ''USA''
      else if c = Some ''United Kingdom'' then Some ''UK''
      else c)"

text \<open>The three steps on a table that has been read, in the order of the source.\<close>

definition preprocess :: "raw_row list \<Rightarrow> dataframe" where
  "preprocess raw =
     (let df = dropna raw;
          df = map (\<lambda>r. \<lparr>vote_average = to_numeric (raw_vote_average r),
                          genre = raw_genre r, country = raw_country r\<rparr>) df;
          df = map (\<lambda>r. r\<lparr>country := replace_country (country r)\<rparr>) df
      in df)"

section \<open>Data analysis: \<^verbatim>\<open>analyze_ratings\<close>\<close>

text \<open>
  \<^verbatim>\<open>df.groupby(key)['vote_average'].mean()\<close> makes one pass over the rows, keeping
  for every key the sum and the number of the ratings that are not NaN; rows whose key is
  NaN belong to no group. The groups come out in ascending key order, and the mean of a
  group without any number is NaN.
\<close>

fun tally :: "rat option \<Rightarrow> rat \<times> nat \<Rightarrow> rat \<times> nat" where
  "tally None (s, n) = (s, n)"
| "tally (Some v) (s, n) = (s + v, Suc n)"

fun accumulate :: "'k \<Rightarrow> rat option \<Rightarrow> ('k \<times> rat \<times> nat) list \<Rightarrow> ('k \<times> rat \<times> nat) list" where
  "accumulate k v [] = [(k, tally v (0, 0))]"
| "accumulate k v ((k', sn) # acc) =
     (if k = k' then (k', tally v sn) # acc else (k', sn) # accumulate k v acc)"

definition group_sums :: "('k \<times> rat option) list \<Rightarrow> ('k \<times> rat \<times> nat) list" where
  "group_sums kvs = foldl (\<lambda>acc (k, v). accumulate k v acc) [] kvs"

fun finish_mean :: "rat \<times> nat \<Rightarrow> rat option" where
  "finish_mean (s, n) = (if n = 0 then None else Some (s / of_nat n))"

definition keyed :: "(row \<Rightarrow> 'k option) \<Rightarrow> dataframe \<Rightarrow> ('k \<times> rat option) list" where
  "keyed key df = List.map_filter (\<lambda>r. map_option (\<lambda>k. (k, vote_average r)) (key r)) df"

definition groupby_mean :: "(row \<Rightarrow> 'k option) \<Rightarrow> dataframe \<Rightarrow> ('k :: linorder) series" where
  "groupby_mean key df =
     map (\<lambda>(k, sn). (k, finish_mean sn)) (sort_key fst (group_sums (keyed key df)))"

text \<open>
  \<^verbatim>\<open>sort_values(ascending=False)\<close>: the entries with a number in descending order
  of the number, then the NaN entries (\<^verbatim>\<open>na_position='last'\<close>). The library's
  default sorting algorithm does not fix the order of entries with equal values; the model
  keeps them in index order.
\<close>

definition sort_values_desc :: "'k series \<Rightarrow> 'k series" where
  "sort_values_desc s =
     map (\<lambda>(k, v). (k, Some v))
       (sort_key (\<lambda>(k, v). - v) (List.map_filter (\<lambda>(k, v). map_option (Pair k) v) s))
     @ filter (\<lambda>(k, v). v = None) s"

text \<open>
  \<^verbatim>\<open>df.pivot_table(values='vote_average', index='genre', columns='country',
  aggfunc='mean')\<close> groups by the pair of keys, drops the groups whose mean is NaN, and
  lays the remaining means out with the genres as row labels and the countries as column
  labels, both ascending; a cell without a group is NaN.
\<close>

record pivot =
  pv_index :: "string list"
  pv_columns :: "string list"
  pv_cells :: "((string \<times> string) \<times> rat) list"

definition genre_country :: "row \<Rightarrow> (string \<times> string) option" where
  "genre_country r =
     (case genre r of None \<Rightarrow> None
      | Some g \<Rightarrow> (case country r of None \<Rightarrow> None | Some c \<Rightarrow> Some (g, c)))"

definition pivot_table :: "dataframe \<Rightarrow> pivot" where
  "pivot_table df =
     (let agged = groupby_mean genre_country df;
          cells = List.map_filter (\<lambda>(k, v). map_option (Pair k) v) agged
      in \<lparr>pv_index = sort (remdups (map (fst \<circ> fst) cells)),
          pv_columns = sort (remdups (map (snd \<circ> fst) cells)),
          pv_cells = cells\<rparr>)"

definition pivot_at :: "pivot \<Rightarrow> string \<Rightarrow> string \<Rightarrow> rat option" where
  "pivot_at p g c = map_of (pv_cells p) (g, c)"

definition analyze_ratings :: "dataframe \<Rightarrow> string series \<times> string series \<times> pivot" where
  "analyze_ratings df =
     (let genre_ratings = sort_values_desc (groupby_mean genre df);
          country_ratings = sort_values_desc (groupby_mean country df);
          genre_country_ratings = pivot_table df
      in (genre_ratings, country_ratings, genre_country_ratings))"

section \<open>The files the script reads and writes\<close>

text \<open>
  The world outside the process: the files by path and the directories. A file is a CSV
  table or an image written by \<^verbatim>\<open>plt.savefig\<close>. The image type is left open,
  and so is the plotting library: \<open>plt\<close> stands for drawing a chart into a figure and
  encoding it, which yields an image or raises.
\<close>

datatype 'img content = CsvFile "raw_row list" | ImageFile 'img

record 'img world =
  files :: "string \<rightharpoonup> 'img content"
  dirs :: "string set"

definition read_csv :: "'img world \<Rightarrow> string \<Rightarrow> exn + raw_row list" where
  "read_csv w file_path =
     (case files w file_path of
        None \<Rightarrow> Inl FileNotFoundError
      | Some (CsvFile table) \<Rightarrow> Inr table
      | Some (ImageFile img) \<Rightarrow> Inl UnicodeDecodeError)"

definition load_and_preprocess_data :: "'img world \<Rightarrow> string \<Rightarrow> exn + dataframe" where
  "load_and_preprocess_data w file_path =
     (case read_csv w file_path of
        Inl e \<Rightarrow> Inl e
      | Inr df \<Rightarrow> Inr (preprocess df))"

section \<open>Visualization: \<^verbatim>\<open>generate_plots\<close>\<close>

datatype chart = Barplot "string series" | Heatmap pivot | Boxplot dataframe

definition path_exists :: "'img world \<Rightarrow> string \<Rightarrow> bool" where
  "path_exists w p = (p \<in> dirs w \<or> files w p \<noteq> None)"

definition makedirs :: "'img world \<Rightarrow> string \<Rightarrow> 'img world" where
  "makedirs w p = w\<lparr>dirs := insert p (dirs w)\<rparr>"

text \<open>\<^verbatim>\<open>os.path.join\<close> of two components.\<close>

definition path_join :: "string \<Rightarrow> string \<Rightarrow> string" where
  "path_join a b =
     (if b \<noteq> [] \<and> hd b = CHR ''/'' then b
      else if a = [] \<or> last a = CHR ''/'' then a @ b
      else a @ ''/'' @ b)"

definition savefig :: "'img world \<Rightarrow> string \<Rightarrow> 'img \<Rightarrow> 'img world" where
  "savefig w p img = w\<lparr>files := (files w)(p \<mapsto> ImageFile img)\<rparr>"

text \<open>
  The three charts are drawn and saved one after the other; an exception of the plotting
  library leaves the function at once, with the files written so far in place.
\<close>

definition generate_plots ::
    "(chart \<Rightarrow> exn + 'img) \<Rightarrow> 'img world \<Rightarrow> dataframe \<Rightarrow> string \<Rightarrow> 'img world \<times> (exn + unit)" where
  "generate_plots plt w df output_dir =
     (let w = (if \<not> path_exists w output_dir then makedirs w output_dir else w);
          genre_ratings = sort_values_desc (groupby_mean genre df)
      in case plt (Barplot genre_ratings) of
           Inl e \<Rightarrow> (w, Inl e)
         | Inr img \<Rightarrow>
            (let w = savefig w (path_join output_dir ''genre_ratings.png'') img;
                 genre_country_ratings = pivot_table df
             in case plt (Heatmap genre_country_ratings) of
                  Inl e \<Rightarrow> (w, Inl e)
                | Inr img \<Rightarrow>
                   (let w = savefig w (path_join output_dir ''genre_country_heatmap.png'') img
                    in case plt (Boxplot df) of
                         Inl e \<Rightarrow> (w, Inl e)
                       | Inr img \<Rightarrow>
                          (savefig w (path_join output_dir ''genre_boxplot.png'') img, Inr ()))))"

section \<open>The web application\<close>

text \<open>
  The two templates of the source, as the elements they render. The results template
  lists the genre ratings and the country ratings, each value rounded by the template
  filter \<^verbatim>\<open>round(2)\<close>, and shows the three plots; it does not use the
  \<^verbatim>\<open>genre_country_ratings\<close> it is given.
\<close>

datatype element =
  Title string
  | H1 string
  | H2 string
  | Form string string "string list" string
  | Ul "(string \<times> rat option) list"
  | Img string string
  | A string string

type_synonym page = "element list"

record template_context =
  ctx_genre_ratings :: "(string \<times> rat option) list"
  ctx_country_ratings :: "(string \<times> rat option) list"
  ctx_genre_country_ratings :: "(string \<times> (string \<times> rat option) list) list"
  ctx_genre_plot :: string
  ctx_heatmap_plot :: string
  ctx_boxplot_plot :: string

definition round_half_even :: "rat \<Rightarrow> int" where
  "round_half_even x =
     (let f = \<lfloor>x\<rfloor>; d = x - of_int f
      in if d < 1 / 2 then f else if 1 / 2 < d then f + 1 else if even f then f else f + 1)"

definition round2 :: "rat \<Rightarrow> rat" where
  "round2 x = of_int (round_half_even (x * 100)) / 100"

definition index_html :: page where
  "index_html =
     [Title ''IMDB Movie Ratings Analysis'',
      H1 ''IMDB Movie Ratings Analysis'',
      Form ''/analyze'' ''post'' [''genre'', ''country''] ''Analyze'']"

definition results_html :: "template_context \<Rightarrow> page" where
  "results_html ctx =
     [Title ''Analysis Results'',
      H1 ''Analysis Results'',
      H2 ''Genre Ratings'',
      Ul (map (\<lambda>(genre, rating). (genre, map_option round2 rating)) (ctx_genre_ratings ctx)),
      H2 ''Country Ratings'',
      Ul (map (\<lambda>(country, rating). (country, map_option round2 rating)) (ctx_country_ratings ctx)),
      H2 ''Visualizations'',
      Img (ctx_genre_plot ctx) ''Genre Ratings'',
      Img (ctx_heatmap_plot ctx) ''Genre-Country Heatmap'',
      Img (ctx_boxplot_plot ctx) ''Genre Boxplot'',
      A ''/'' ''Back to Home'']"

text \<open>
  \<^verbatim>\<open>DataFrame.to_dict()\<close> of the pivot table: for every column label the
  dictionary of its cells by row label.
\<close>

definition pivot_to_dict :: "pivot \<Rightarrow> (string \<times> (string \<times> rat option) list) list" where
  "pivot_to_dict p = map (\<lambda>c. (c, map (\<lambda>g. (g, pivot_at p g c)) (pv_index p))) (pv_columns p)"

text \<open>
  \<^verbatim>\<open>request.form\<close> maps the names of the submitted fields to their values;
  \<^verbatim>\<open>get\<close> gives \<open>None\<close> for a field that was not submitted. A value is true in
  a condition iff it is a non-empty string.
\<close>

type_synonym form = "string \<rightharpoonup> string"

fun truthy :: "string option \<Rightarrow> bool" where
  "truthy None = False"
| "truthy (Some s) = (s \<noteq> [])"

definition dataset_path :: string where
  "dataset_path = ''path/to/imdb_dataset.csv''"

definition index :: page where
  "index = index_html"

text \<open>
  The filter of the handler (lines 74 to 79 of the source): each submitted field that is
  non-empty keeps the rows whose cell equals it.
\<close>

definition filter_rows :: "string option \<Rightarrow> string option \<Rightarrow> dataframe \<Rightarrow> dataframe" where
  "filter_rows genre_field country_field df =
     (let filtered_df = df;
          filtered_df = (if truthy genre_field
                         then filter (\<lambda>r. genre r = genre_field) filtered_df else filtered_df);
          filtered_df = (if truthy country_field
                         then filter (\<lambda>r. country r = country_field) filtered_df else filtered_df)
      in filtered_df)"

definition analyze ::
    "(chart \<Rightarrow> exn + 'img) \<Rightarrow> 'img world \<Rightarrow> form \<Rightarrow> 'img world \<times> (exn + page)" where
  "analyze plt w request_form =
     (let genre_field = request_form ''genre'';
          country_field = request_form ''country''
      in case load_and_preprocess_data w dataset_path of
           Inl e \<Rightarrow> (w, Inl e)
         | Inr df \<Rightarrow>
            (case generate_plots plt w df ''static'' of
               (w, Inl e) \<Rightarrow> (w, Inl e)
             | (w, Inr u) \<Rightarrow>
                (let filtered_df = filter_rows genre_field country_field df;
                     (genre_ratings, country_ratings, genre_country_ratings) =
                        analyze_ratings filtered_df
                 in (w, Inr (results_html
                       \<lparr>ctx_genre_ratings = genre_ratings,
                        ctx_country_ratings = country_ratings,
                        ctx_genre_country_ratings = pivot_to_dict genre_country_ratings,
                        ctx_genre_plot = ''static/genre_ratings.png'',
                        ctx_heatmap_plot = ''static/genre_country_heatmap.png'',
                        ctx_boxplot_plot = ''static/genre_boxplot.png''\<rparr>)))))"

text \<open>
  The application object and its routes. \<^verbatim>\<open>Flask(__name__)\<close> creates the
  application with the rule \<^verbatim>\<open>/static/<path:filename>\<close>, which serves the files
  of the static folder, and each \<^verbatim>\<open>@app.route\<close> adds a rule for a view function
  of the script. A rule accepts the methods it is given (\<^verbatim>\<open>GET\<close> when none is
  given), \<^verbatim>\<open>HEAD\<close> whenever it accepts \<^verbatim>\<open>GET\<close>, and
  \<^verbatim>\<open>OPTIONS\<close>. The path part of the static rule matches a non-empty remainder
  that does not begin with a slash.
\<close>

datatype http_method = GET | HEAD | POST | PUT | DELETE | PATCH | OPTIONS

datatype endpoint = Static | Index | Analyze

datatype rule = Exact string | PathUnder string

fun match_rule :: "rule \<Rightarrow> string \<Rightarrow> string option" where
  "match_rule (Exact p) path = (if path = p then Some [] else None)"
| "match_rule (PathUnder p) path =
     (let rest = drop (length p) path
      in if take (length p) path = p \<and> rest \<noteq> [] \<and> hd rest \<noteq> CHR ''/'' then Some rest else None)"

definition add_url_rule :: "rule \<Rightarrow> http_method list \<Rightarrow> endpoint \<Rightarrow> rule \<times> http_method list \<times> endpoint" where
  "add_url_rule r methods ep =
     (r, methods @ (if GET \<in> set methods \<and> HEAD \<notin> set methods then [HEAD] else [])
                 @ (if OPTIONS \<notin> set methods then [OPTIONS] else []), ep)"

definition url_map :: "(rule \<times> http_method list \<times> endpoint) list" where
  "url_map =
     [add_url_rule (PathUnder ''/static/'') [GET] Static,
      add_url_rule (Exact ''/'') [GET] Index,
      add_url_rule (Exact ''/analyze'') [POST] Analyze]"

fun find_rule ::
    "(rule \<times> http_method list \<times> endpoint) list \<Rightarrow> string \<Rightarrow> (string \<times> http_method list \<times> endpoint) option" where
  "find_rule [] path = None"
| "find_rule ((r, methods, ep) # rules) path =
     (case match_rule r path of
        Some arg \<Rightarrow> Some (arg, methods, ep)
      | None \<Rightarrow> find_rule rules path)"

text \<open>
  A request whose path matches no rule is answered 404, and one whose path matches but
  whose method the rule does not accept 405. The framework answers \<^verbatim>\<open>OPTIONS\<close>
  itself, with the methods of the rule. Every other request runs the view of the rule: the
  static view sends the file of that name in the static folder, or answers 404 when there
  is none; the two views of the script are \<^verbatim>\<open>index\<close> and
  \<^verbatim>\<open>analyze\<close>. The reply to \<^verbatim>\<open>HEAD\<close> is the reply to
  \<^verbatim>\<open>GET\<close> without its body. The static folder is the directory
  \<^verbatim>\<open>static\<close> the plots are saved to (the script is run from its own directory).
\<close>

datatype 'img body = Page page | StaticFile "'img content" | NoBody

datatype 'a reply = NotFound | MethodNotAllowed | Allow "http_method list" | Handled 'a

definition view ::
    "(chart \<Rightarrow> exn + 'img) \<Rightarrow> endpoint \<Rightarrow> string \<Rightarrow> 'img world \<Rightarrow> form
      \<Rightarrow> 'img world \<times> (exn + 'img body) reply" where
  "view plt ep arg w request_form =
     (case ep of
        Static \<Rightarrow>
          (case files w (path_join ''static'' arg) of
             None \<Rightarrow> (w, NotFound)
           | Some c \<Rightarrow> (w, Handled (Inr (StaticFile c))))
      | Index \<Rightarrow> (w, Handled (Inr (Page index)))
      | Analyze \<Rightarrow>
          (case analyze plt w request_form of
             (w', Inl e) \<Rightarrow> (w', Handled (Inl e))
           | (w', Inr p) \<Rightarrow> (w', Handled (Inr (Page p)))))"

fun without_body :: "(exn + 'img body) reply \<Rightarrow> (exn + 'img body) reply" where
  "without_body (Handled (Inr b)) = Handled (Inr NoBody)"
| "without_body r = r"

definition dispatch ::
    "(chart \<Rightarrow> exn + 'img) \<Rightarrow> 'img world \<Rightarrow> http_method \<Rightarrow> string \<Rightarrow> form
      \<Rightarrow> 'img world \<times> (exn + 'img body) reply" where
  "dispatch plt w m path request_form =
     (case find_rule url_map path of
        None \<Rightarrow> (w, NotFound)
      | Some (arg, methods, ep) \<Rightarrow>
          if m \<notin> set methods then (w, MethodNotAllowed)
          else if m = OPTIONS then (w, Allow methods)
          else (case view plt ep arg w request_form of
                  (w', r) \<Rightarrow> (w', if m = HEAD then without_body r else r)))"

text \<open>A sequence of requests, served one after the other.\<close>

fun serve ::
    "(chart \<Rightarrow> exn + 'img) \<Rightarrow> 'img world \<Rightarrow> (http_method \<times> string \<times> form) list \<Rightarrow> 'img world" where
  "serve plt w [] = w"
| "serve plt w ((m, path, request_form) # rs) =
     serve plt (fst (dispatch plt w m path request_form)) rs"

chapter \<open>Iris classifier (\<^verbatim>\<open>flower ide/iris-classifier.py\<close>)\<close>

section \<open>Splitting, fitting and scoring\<close>

text \<open>
  The data matrix \<open>X\<close> is a list of feature rows and the target \<open>y\<close> the list of
  their labels. The built-in dataset and the permutation the seeded random generator
  draws (\<^verbatim>\<open>random_state=42\<close>) are data of the library, so the script takes them
  as parameters. Features are exact rationals; \<^verbatim>\<open>test_size=0.2\<close> is the rational
  \<open>1 / 5\<close>, which gives the size the floating-point product gives for the 150 samples
  of the dataset.

  \<^verbatim>\<open>train_test_split\<close> takes the first \<open>n_test\<close> indices of the permutation for
  the test part and the following \<open>n_train\<close> for the training part, where \<open>n_test\<close> is
  the fraction of the samples rounded up and \<open>n_train\<close> the rest; it raises when the
  arrays have different lengths or the training part would be empty.
\<close>

definition safe_indexing :: "'a list \<Rightarrow> nat list \<Rightarrow> 'a list" where
  "safe_indexing xs ind = map (\<lambda>i. xs ! i) ind"

definition train_test_split ::
    "nat list \<Rightarrow> 'a list \<Rightarrow> 'b list \<Rightarrow> rat \<Rightarrow> exn + ('a list \<times> 'a list \<times> 'b list \<times> 'b list)" where
  "train_test_split permutation X y test_size =
     (let n_samples = length X;
          n_test = nat \<lceil>test_size * of_nat n_samples\<rceil>;
          n_train = n_samples - n_test
      in if length y \<noteq> n_samples then Inl ValueError
         else if test_size \<le> 0 \<or> 1 \<le> test_size then Inl ValueError
         else if n_train = 0 then Inl ValueError
         else if \<not> list_all (\<lambda>i. i < n_samples) permutation then Inl IndexError
         else
           (let ind_test = take n_test permutation;
                ind_train = take n_train (drop n_test permutation)
            in Inr (safe_indexing X ind_train, safe_indexing X ind_test,
                    safe_indexing y ind_train, safe_indexing y ind_test)))"

text \<open>
  \<^verbatim>\<open>KNeighborsClassifier\<close> with the default uniform weights and Euclidean metric.
  Fitting stores the training data. A query is classified by the most frequent label among
  its \<open>n_neighbors\<close> nearest training samples, the smallest label winning a tie. Distances
  are compared by their squares. The library does not fix which of several equidistant
  samples counts as nearer; the model takes the one that comes first in the training data.
\<close>

record classifier =
  n_neighbors :: nat
  fit_X :: "rat list list"
  fit_y :: "int list"

definition KNeighborsClassifier :: "nat \<Rightarrow> classifier" where
  "KNeighborsClassifier k = \<lparr>n_neighbors = k, fit_X = [], fit_y = []\<rparr>"

definition fit :: "classifier \<Rightarrow> rat list list \<Rightarrow> int list \<Rightarrow> exn + classifier" where
  "fit model X y =
     (if X = [] \<or> length X \<noteq> length y then Inl ValueError
      else Inr (model\<lparr>fit_X := X, fit_y := y\<rparr>))"

definition sqdist :: "rat list \<Rightarrow> rat list \<Rightarrow> rat" where
  "sqdist a b = sum_list (map (\<lambda>(u, v). (u - v) * (u - v)) (zip a b))"

definition kneighbors :: "classifier \<Rightarrow> rat list \<Rightarrow> (rat list \<times> int) list" where
  "kneighbors model x =
     take (n_neighbors model) (sort_key (\<lambda>(t, l). sqdist x t) (zip (fit_X model) (fit_y model)))"

definition mode :: "int list \<Rightarrow> int" where
  "mode ls = Min (set (filter (\<lambda>l. list_all (\<lambda>l'. count_list ls l' \<le> count_list ls l) ls) ls))"

definition predict :: "classifier \<Rightarrow> rat list list \<Rightarrow> exn + int list" where
  "predict model X =
     (if X = [] then Inl ValueError
      else if length (fit_X model) < n_neighbors model then Inl ValueError
      else Inr (map (\<lambda>x. mode (map snd (kneighbors model x))) X))"

text \<open>\<^verbatim>\<open>score\<close> is the mean accuracy of the predictions on the given data.\<close>

definition score :: "classifier \<Rightarrow> rat list list \<Rightarrow> int list \<Rightarrow> exn + rat" where
  "score model X y =
     (case predict model X of
        Inl e \<Rightarrow> Inl e
      | Inr y_pred \<Rightarrow>
          if length y_pred \<noteq> length y then Inl ValueError
          else Inr (of_nat (length (filter (\<lambda>(p, t). p = t) (zip y_pred y))) / of_nat (length y)))"

section \<open>Printing\<close>

text \<open>
  The format \<^verbatim>\<open>.2f\<close> writes the number rounded to two decimal places (a tie going
  to the even neighbour): a sign when the number is negative, the digits of the integer
  part, a point and two digits.
\<close>

definition digit :: "nat \<Rightarrow> char" where
  "digit d = ''0123456789'' ! d"

fun show_nat :: "nat \<Rightarrow> string" where
  "show_nat n = (if n < 10 then [digit n] else show_nat (n div 10) @ [digit (n mod 10)])"

declare show_nat.simps [simp del]

definition format_2f :: "rat \<Rightarrow> string" where
  "format_2f x =
     (let n = nat (round_half_even (\<bar>x\<bar> * 100))
      in (if x < 0 then ''-'' else [])
         @ show_nat (n div 100) @ ''.'' @ [digit (n mod 100 div 10), digit (n mod 10)])"

text \<open>The script; its result is what it writes to standard output, line by line.\<close>

definition iris_classifier :: "rat list list \<times> int list \<Rightarrow> nat list \<Rightarrow> exn + string list" where
  "iris_classifier iris permutation =
     (let X = fst iris; y = snd iris
      in case train_test_split permutation X y (1 / 5) of
           Inl e \<Rightarrow> Inl e
         | Inr (X_train, X_test, y_train, y_test) \<Rightarrow>
            (case fit (KNeighborsClassifier 3) X_train y_train of
               Inl e \<Rightarrow> Inl e
             | Inr model \<Rightarrow>
                (case score model X_test y_test of
                   Inl e \<Rightarrow> Inl e
                 | Inr accuracy \<Rightarrow> Inr [''Accuracy: '' @ format_2f (accuracy * 100) @ ''%''])))"

chapter \<open>Specification\<close>

section \<open>Notions of the specification\<close>

text \<open>
  The arithmetic mean of a list of numbers; the numbers of the rating column of a frame
  and their mean, which is NaN for a column without a number; the numbers recorded under a
  key in a list of keyed ratings; and the rows the handler retains as the specification
  words it: the rows whose genre equals the submitted genre (when non-empty) and whose
  country equals the submitted country (when non-empty).
\<close>

definition arithmetic_mean :: "rat list \<Rightarrow> rat" where
  "arithmetic_mean xs = sum_list xs / of_nat (length xs)"

definition ratings :: "dataframe \<Rightarrow> rat list" where
  "ratings df = List.map_filter vote_average df"

definition column_mean :: "dataframe \<Rightarrow> rat option" where
  "column_mean df = (if ratings df = [] then None else Some (arithmetic_mean (ratings df)))"

text \<open>
  The arithmetic mean of the rating column over all the rows of a frame, as floating-point
  arithmetic computes it: the sum of the ratings divided by the number of rows, which is
  NaN as soon as one of the ratings is NaN.
\<close>

definition mean_over_rows :: "dataframe \<Rightarrow> rat option" where
  "mean_over_rows df =
     (if list_all (\<lambda>r. vote_average r \<noteq> None) df then Some (arithmetic_mean (ratings df))
      else None)"

definition values_of :: "'k \<Rightarrow> ('k \<times> rat option) list \<Rightarrow> rat list" where
  "values_of k kvs = List.map_filter (\<lambda>(k', v). if k' = k then v else None) kvs"

definition retained :: "string option \<Rightarrow> string option \<Rightarrow> dataframe \<Rightarrow> dataframe" where
  "retained genre_field country_field df =
     filter (\<lambda>r. (truthy genre_field \<longrightarrow> genre r = genre_field)
               \<and> (truthy country_field \<longrightarrow> country r = country_field)) df"

text \<open>The result of \<^verbatim>\<open>analyze_ratings\<close> on a frame without rows.\<close>

definition no_tables :: "string series \<times> string series \<times> pivot" where
  "no_tables = ([], [], \<lparr>pv_index = [], pv_columns = [], pv_cells = []\<rparr>)"

text \<open>
  The order of a table. Two floats compare as their numbers do, and a comparison with NaN
  is false; a list is non-increasing when every entry is greater than or equal to the next.
  A table has its numbers first when its entries up to the first NaN are non-increasing and
  every entry from the first NaN on is NaN.
\<close>

fun float_ge :: "rat option \<Rightarrow> rat option \<Rightarrow> bool" where
  "float_ge (Some x) (Some y) = (y \<le> x)"
| "float_ge _ _ = False"

fun non_increasing :: "rat option list \<Rightarrow> bool" where
  "non_increasing [] = True"
| "non_increasing [x] = True"
| "non_increasing (x # y # zs) = (float_ge x y \<and> non_increasing (y # zs))"

definition numbers_first :: "'k series \<Rightarrow> bool" where
  "numbers_first s =
     (let nums = takeWhile (\<lambda>(k, v). v \<noteq> None) s; nans = dropWhile (\<lambda>(k, v). v \<noteq> None) s
      in non_increasing (map snd nums) \<and> list_all (\<lambda>(k, v). v = None) nans)"

text \<open>
  The page the handler renders from the result of \<^verbatim>\<open>analyze_ratings\<close>, the
  tables (the lists) and the image links of a page, and a table with its values rounded as
  the template rounds them.
\<close>

definition results_page :: "string series \<times> string series \<times> pivot \<Rightarrow> page" where
  "results_page t =
     (case t of (genre_ratings, country_ratings, genre_country_ratings) \<Rightarrow>
        results_html
          \<lparr>ctx_genre_ratings = genre_ratings,
           ctx_country_ratings = country_ratings,
           ctx_genre_country_ratings = pivot_to_dict genre_country_ratings,
           ctx_genre_plot = ''static/genre_ratings.png'',
           ctx_heatmap_plot = ''static/genre_country_heatmap.png'',
           ctx_boxplot_plot = ''static/genre_boxplot.png''\<rparr>)"

fun tables :: "page \<Rightarrow> (string \<times> rat option) list list" where
  "tables [] = []"
| "tables (Ul t # es) = t # tables es"
| "tables (e # es) = tables es"

fun images :: "page \<Rightarrow> string list" where
  "images [] = []"
| "images (Img src alt # es) = src # images es"
| "images (e # es) = images es"

definition rounded :: "string series \<Rightarrow> string series" where
  "rounded s = map (\<lambda>(k, v). (k, map_option round2 v)) s"

text \<open>
  The charts \<^verbatim>\<open>generate_plots\<close> draws, in its order, and the first exception
  in a list of results.
\<close>

definition charts :: "dataframe \<Rightarrow> chart list" where
  "charts df =
     [Barplot (sort_values_desc (groupby_mean genre df)), Heatmap (pivot_table df), Boxplot df]"

fun first_error :: "(exn + 'a) list \<Rightarrow> exn option" where
  "first_error [] = None"
| "first_error (Inl e # rs) = Some e"
| "first_error (Inr x # rs) = first_error rs"

text \<open>
  The notions of the iris claims. A list of training samples is a choice of the \<open>k\<close>
  nearest ones of a query when it has \<open>k\<close> members, all taken from the training data,
  and no training sample left out is nearer to the query than a chosen one. A label is a
  most frequent one of a list when it occurs in it and no label occurs more often. The
  number of correct predictions counts the test samples whose predicted label equals the
  true label.
\<close>

definition nearest :: "nat \<Rightarrow> (rat list \<times> int) list \<Rightarrow> rat list \<Rightarrow> (rat list \<times> int) list \<Rightarrow> bool" where
  "nearest k train x nbrs \<longleftrightarrow>
     length nbrs = k \<and> mset nbrs \<subseteq># mset train
     \<and> (\<forall>t \<in> set nbrs. \<forall>s \<in># mset train - mset nbrs. sqdist x (fst t) \<le> sqdist x (fst s))"

definition most_frequent :: "int list \<Rightarrow> int \<Rightarrow> bool" where
  "most_frequent ls l \<longleftrightarrow> l \<in> set ls \<and> (\<forall>l'. count_list ls l' \<le> count_list ls l)"

definition correct :: "int list \<Rightarrow> int list \<Rightarrow> nat" where
  "correct y_pred y_true = card {i. i < length y_true \<and> y_pred ! i = y_true ! i}"

text \<open>
  Reading a printed number back: the decimal digits, the value of a digit (its place among
  the digits) and the value of a string of digits.
\<close>

definition is_digit :: "char \<Rightarrow> bool" where
  "is_digit c = (c \<in> set ''0123456789'')"

definition digit_value :: "char \<Rightarrow> nat" where
  "digit_value c = length (takeWhile (\<lambda>d. d \<noteq> c) ''0123456789'')"

definition read_nat :: "string \<Rightarrow> nat" where
  "read_nat s = foldl (\<lambda>n c. 10 * n + digit_value c) 0 s"




section \<open>Sample inputs\<close>

text \<open>
  A CSV table with a rating that is not a number, a missing rating, a missing genre and the
  two country names the script rewrites; the world that holds it at the path the handler
  reads; and the frame loaded from it.
\<close>

definition sample_table :: "raw_row list" where
  "sample_table =
     [\<lparr>raw_vote_average = Number 7, raw_genre = Some ''Drama'', raw_country = Some ''United States''\<rparr>,
      \<lparr>raw_vote_average = Text ''unrated'', raw_genre = Some ''Comedy'', raw_country = Some ''USA''\<rparr>,
      \<lparr>raw_vote_average = Missing, raw_genre = Some ''Drama'', raw_country = Some ''France''\<rparr>,
      \<lparr>raw_vote_average = Number 8, raw_genre = None, raw_country = Some ''France''\<rparr>,
      \<lparr>raw_vote_average = Number 6, raw_genre = Some ''Action'', raw_country = Some ''United Kingdom''\<rparr>]"

definition sample_world :: "unit world" where
  "sample_world = \<lparr>files = [dataset_path \<mapsto> CsvFile sample_table], dirs = {}\<rparr>"

definition sample_loaded :: dataframe where
  "sample_loaded =
     [\<lparr>vote_average = Some 7, genre = Some ''Drama'', country = Some ''USA''\<rparr>,
      \<lparr>vote_average = None, genre = Some ''Comedy'', country = Some ''USA''\<rparr>,
      \<lparr>vote_average = Some 6, genre = Some ''Action'', country = Some ''UK''\<rparr>]"

text \<open>
  A plotting library that never raises and one that raises on the heatmap; a world
  without any file; forms; and a sequence of earlier requests.
\<close>

definition always_plots :: "chart \<Rightarrow> exn + unit" where
  "always_plots c = Inr ()"

definition heatmap_fails :: "chart \<Rightarrow> exn + unit" where
  "heatmap_fails c = (case c of Heatmap p \<Rightarrow> Inl ValueError | _ \<Rightarrow> Inr ())"

definition empty_world :: "unit world" where
  "empty_world = \<lparr>files = Map.empty, dirs = {}\<rparr>"

definition drama_form :: form where
  "drama_form = [''genre'' \<mapsto> ''Drama'']"

definition united_states_form :: form where
  "united_states_form = [''genre'' \<mapsto> ''Drama'', ''country'' \<mapsto> ''United States'']"

definition history :: "(http_method \<times> string \<times> form) list" where
  "history = [(POST, ''/analyze'', [''genre'' \<mapsto> ''Comedy'', ''country'' \<mapsto> ''USA'']),
              (GET, ''/'', Map.empty),
              (PUT, ''/analyze'', Map.empty)]"

text \<open>
  A data set of the size of the iris data set (150 samples with two features and the labels
  0, 1 and 2) and a permutation of its indices; they stand in for the library's data.
\<close>

definition sample_X :: "rat list list" where
  "sample_X = map (\<lambda>i. [of_nat (i mod 3) * 10 + of_nat (i mod 7) / 10, of_nat (i mod 3)]) [0..<150]"

definition sample_y :: "int list" where
  "sample_y = map (\<lambda>i. int (i mod 3)) [0..<150]"

definition sample_permutation :: "nat list" where
  "sample_permutation = rev [0..<150]"


chapter \<open>Verification\<close>

section \<open>Grouping and averaging\<close>



lemma map_of_accumulate:
  "map_of (accumulate k v acc) k' =
     (if k' = k then Some (tally v (case map_of acc k of None \<Rightarrow> (0, 0) | Some sn \<Rightarrow> sn))
      else map_of acc k')"
  by (induction acc) auto

lemma keys_accumulate: "set (map fst (accumulate k v acc)) = insert k (set (map fst acc))"
proof -
  have "dom (map_of (accumulate k v acc)) = insert k (dom (map_of acc))"
    by (auto simp: map_of_accumulate dom_def)
  then show ?thesis by (simp add: dom_map_of_conv_image_fst)
qed

lemma distinct_accumulate:
  "distinct (map fst acc) \<Longrightarrow> distinct (map fst (accumulate k v acc))"
proof (induction acc)
  case Nil
  show ?case by simp
next
  case (Cons a acc)
  obtain k' sn where a: "a = (k', sn)" by (cases a)
  show ?case
  proof (cases "k = k'")
    case True
    with Cons.prems show ?thesis by (simp add: a)
  next
    case False
    have "k' \<notin> set (map fst (accumulate k v acc))"
      using Cons.prems False unfolding keys_accumulate by (auto simp: a)
    with Cons False show ?thesis by (simp add: a)
  qed
qed

lemma group_sums_snoc: "group_sums (kvs @ [(k, v)]) = accumulate k v (group_sums kvs)"
  by (simp add: group_sums_def)

lemma values_of_snoc:
  "values_of k (kvs @ [(k', v)]) =
     values_of k kvs @ (if k' = k then (case v of None \<Rightarrow> [] | Some x \<Rightarrow> [x]) else [])"
  by (auto simp: values_of_def map_filter_def split: option.splits)

lemma values_of_absent: "k \<notin> fst ` set kvs \<Longrightarrow> values_of k kvs = []"
  by (induction kvs) (auto simp: values_of_def map_filter_def)

lemma map_of_group_sums:
  "map_of (group_sums kvs) k =
     (if k \<in> fst ` set kvs then Some (sum_list (values_of k kvs), length (values_of k kvs))
      else None)"
proof (induction kvs rule: rev_induct)
  case Nil
  show ?case by (simp add: group_sums_def)
next
  case (snoc kv kvs)
  obtain k' v where kv: "kv = (k', v)" by (cases kv)
  show ?case
  proof (cases "k = k'")
    case False
    then show ?thesis
      using snoc.IH by (auto simp: kv group_sums_snoc map_of_accumulate values_of_snoc)
  next
    case True
    show ?thesis
    proof (cases "k \<in> fst ` set kvs")
      case True
      with \<open>k = k'\<close> snoc.IH show ?thesis
        by (cases v) (simp_all add: kv group_sums_snoc map_of_accumulate values_of_snoc)
    next
      case False
      with \<open>k = k'\<close> snoc.IH values_of_absent[OF False] show ?thesis
        by (cases v) (simp_all add: kv group_sums_snoc map_of_accumulate values_of_snoc)
    qed
  qed
qed

lemma distinct_group_sums: "distinct (map fst (group_sums kvs))"
proof (induction kvs rule: rev_induct)
  case Nil
  show ?case by (simp add: group_sums_def)
next
  case (snoc kv kvs)
  then show ?case by (cases kv) (simp add: group_sums_snoc distinct_accumulate)
qed


lemma map_of_perm:
  assumes "mset xs = mset ys" "distinct (map fst ys)"
  shows "map_of xs = map_of ys"
proof -
  have "mset (map fst xs) = mset (map fst ys)" using assms(1) by simp
  then have "distinct (map fst xs)" using assms(2) by (metis mset_eq_imp_distinct_iff)
  moreover have "set xs = set ys" using assms(1) by (rule mset_eq_setD)
  ultimately show ?thesis using assms(2) by (simp add: map_of_inject_set)
qed

lemma values_of_keyed:
  "values_of k (keyed key df) = ratings (filter (\<lambda>r. key r = Some k) df)"
  by (induction df) (auto simp: values_of_def keyed_def ratings_def map_filter_simps split: option.splits)

lemma keys_keyed: "k \<in> fst ` set (keyed key df) \<longleftrightarrow> filter (\<lambda>r. key r = Some k) df \<noteq> []"
  by (induction df) (auto simp: keyed_def map_filter_simps split: option.splits)

lemma finish_mean_column:
  "finish_mean (sum_list (ratings df), length (ratings df)) = column_mean df"
  by (simp add: column_mean_def arithmetic_mean_def)

lemma map_of_map_value:
  "map_of (map (\<lambda>(k, v). (k, f v)) xs) k = map_option f (map_of xs k)"
  by (induction xs) auto

lemma map_of_groupby_mean:
  "map_of (groupby_mean key df) k =
     (let rows = filter (\<lambda>r. key r = Some k) df
      in if rows = [] then None else Some (column_mean rows))"
proof -
  have "map_of (sort_key fst (group_sums (keyed key df))) = map_of (group_sums (keyed key df))"
    by (rule map_of_perm) (simp_all add: distinct_group_sums)
  then show ?thesis
    by (simp add: groupby_mean_def map_of_map_value map_of_group_sums keys_keyed values_of_keyed
        finish_mean_column Let_def del: finish_mean.simps)
qed

lemma distinct_groupby_mean: "distinct (map fst (groupby_mean key df))"
proof -
  have "map fst (groupby_mean key df) = map fst (sort_key fst (group_sums (keyed key df)))"
    by (simp add: groupby_mean_def split_def)
  moreover have "mset (map fst (sort_key fst (group_sums (keyed key df)))) = mset (map fst (group_sums (keyed key df)))"
    by simp
  ultimately show ?thesis
    by (metis distinct_group_sums mset_eq_imp_distinct_iff)
qed

lemma mset_numbers:
  "mset (map (\<lambda>(k, v). (k, Some v)) (List.map_filter (\<lambda>(k, v). map_option (Pair k) v) s))
     = mset (filter (\<lambda>(k, v). v \<noteq> None) s)"
  by (induction s) (auto simp: map_filter_simps)

lemma mset_sort_values_desc: "mset (sort_values_desc s) = mset s"
proof -
  let ?nums = "List.map_filter (\<lambda>(k, v). map_option (Pair k) v) s"
  have "mset (map (\<lambda>(k, v). (k, Some v)) (sort_key (\<lambda>(k, v). - v) ?nums))
          = mset (map (\<lambda>(k, v). (k, Some v)) ?nums)"
    by simp
  then have "mset (sort_values_desc s)
          = mset (filter (\<lambda>(k, v). v \<noteq> None) s) + mset (filter (\<lambda>(k, v). v = None) s)"
    unfolding sort_values_desc_def mset_append mset_numbers by (rule arg_cong2[OF _ refl])
  also have "\<dots> = mset s"
    by (induction s) auto
  finally show ?thesis .
qed

lemma map_of_sort_values_desc:
  "distinct (map fst s) \<Longrightarrow> map_of (sort_values_desc s) = map_of s"
  by (rule map_of_perm) (simp_all add: mset_sort_values_desc)


lemma filter_rows_retained: "filter_rows genre_field country_field df = retained genre_field country_field df"
  by (auto simp: filter_rows_def retained_def Let_def intro: filter_cong)

lemma map_of_numbers_absent:
  "k \<notin> fst ` set s \<Longrightarrow> map_of (List.map_filter (\<lambda>(k, v). map_option (Pair k) v) s) k = None"
  by (induction s) (auto simp: map_filter_simps split: option.splits)

lemma map_of_numbers:
  "distinct (map fst s) \<Longrightarrow>
   map_of (List.map_filter (\<lambda>(k, v). map_option (Pair k) v) s) k =
     (case map_of s k of None \<Rightarrow> None | Some v \<Rightarrow> v)"
proof (induction s)
  case Nil
  show ?case by (simp add: map_filter_simps)
next
  case (Cons a s)
  obtain k' v where a: "a = (k', v)" by (cases a)
  show ?case
  proof (cases "k = k'")
    case True
    then have "k \<notin> fst ` set s" using Cons.prems by (auto simp: a)
    then show ?thesis using True map_of_numbers_absent[of k s]
      by (cases v) (simp_all add: a map_filter_simps)
  next
    case False
    then show ?thesis using Cons by (cases v) (simp_all add: a map_filter_simps)
  qed
qed

lemma genre_country_eq:
  "genre_country r = Some (g, c) \<longleftrightarrow> genre r = Some g \<and> country r = Some c"
  by (auto simp: genre_country_def split: option.splits)

lemma pivot_at_pivot_table:
  "pivot_at (pivot_table df) g c =
     (let rows = filter (\<lambda>r. genre r = Some g \<and> country r = Some c) df
      in if rows = [] then None else column_mean rows)"
  by (simp add: pivot_at_def pivot_table_def Let_def map_of_numbers distinct_groupby_mean
      map_of_groupby_mean genre_country_eq)

lemma ratings_all_numeric:
  "\<forall>r \<in> set df. vote_average r \<noteq> None \<Longrightarrow> length (ratings df) = length df"
  by (induction df) (auto simp: ratings_def map_filter_simps split: option.splits)

lemma column_mean_numeric:
  assumes "\<forall>r \<in> set df. vote_average r \<noteq> None" "df \<noteq> []"
  shows "column_mean df = Some (arithmetic_mean (ratings df))"
proof -
  have "length (ratings df) = length df" using assms(1) by (rule ratings_all_numeric)
  with assms(2) have "ratings df \<noteq> []" by auto
  then show ?thesis by (simp add: column_mean_def)
qed

section \<open>Loading and cleaning\<close>


lemma preprocess_sample: "preprocess sample_table = sample_loaded"
  by (simp add: preprocess_def dropna_def sample_table_def sample_loaded_def replace_country_def)

lemma load_sample: "load_and_preprocess_data sample_world dataset_path = Inr sample_loaded"
  by (simp add: load_and_preprocess_data_def read_csv_def sample_world_def preprocess_sample)

text \<open>
  Claim C2. The rows with a missing rating, genre or country are dropped, but a rating that
  is not a number is turned into NaN after the rows have been dropped: the sample table's
  row with the rating \<^verbatim>\<open>unrated\<close> is in the loaded frame, with a NaN rating.
\<close>

theorem non_numeric_rating_is_kept:
  "load_and_preprocess_data sample_world dataset_path = Inr sample_loaded
   \<and> \<lparr>vote_average = None, genre = Some ''Comedy'', country = Some ''USA''\<rparr> \<in> set sample_loaded"
  by (simp add: load_sample) (simp add: sample_loaded_def)

lemma preprocess_keys_present:
  "r \<in> set (preprocess raw) \<Longrightarrow> genre r \<noteq> None \<and> country r \<noteq> None"
  by (auto simp: preprocess_def dropna_def replace_country_def)

lemma preprocess_rating:
  "r \<in> set (preprocess raw) \<Longrightarrow>
     \<exists>q \<in> set raw. raw_vote_average q \<noteq> Missing \<and> vote_average r = to_numeric (raw_vote_average q)"
  by (auto simp: preprocess_def dropna_def)

lemma replace_country_standard:
  "replace_country c \<noteq> Some ''United States'' \<and> replace_country c \<noteq> Some ''United Kingdom''"
  by (simp add: replace_country_def)

lemma preprocess_country:
  assumes "r \<in> set (preprocess raw)"
  shows "country r \<noteq> Some ''United States'' \<and> country r \<noteq> Some ''United Kingdom''"
proof -
  from assms have "\<exists>q :: raw_row. country r = replace_country (raw_country q)"
    by (auto simp: preprocess_def)
  then obtain q :: raw_row where "country r = replace_country (raw_country q)" ..
  then show ?thesis by (simp add: replace_country_standard)
qed

lemma analyze_ratings_empty: "analyze_ratings [] = no_tables"
  by (simp add: no_tables_def analyze_ratings_def groupby_mean_def keyed_def group_sums_def
      sort_values_desc_def pivot_table_def map_filter_simps)

section \<open>The order of the tables\<close>


lemma sample_loaded_tables:
  "analyze_ratings sample_loaded =
    ([(''Drama'', Some 7), (''Action'', Some 6), (''Comedy'', None)], [(''USA'', Some 7), (''UK'', Some 6)],
     \<lparr>pv_index = [''Action'', ''Drama''], pv_columns = [''UK'', ''USA''],
      pv_cells = [((''Action'', ''UK''), 6), ((''Drama'', ''USA''), 7)]\<rparr>)"
  by code_simp

text \<open>
  Claim C9, as stated, fails on the frame loaded from the sample table: the genre table is
  Drama 7, Action 6, Comedy NaN, and 6 is not greater than or equal to NaN.
\<close>

theorem nan_mean_breaks_order:
  "\<not> non_increasing (map snd (fst (analyze_ratings (preprocess sample_table))))"
  by (simp add: preprocess_sample sample_loaded_tables)

lemma non_increasing_numbers:
  "sorted (map (\<lambda>(k, v). - v) xs) \<Longrightarrow> non_increasing (map snd (map (\<lambda>(k, v). (k, Some v)) xs))"
proof (induction xs)
  case Nil
  show ?case by simp
next
  case (Cons a xs)
  show ?case
  proof (cases xs)
    case Nil
    then show ?thesis by (cases a) simp
  next
    case (Cons b ys)
    with Cons.prems Cons.IH show ?thesis by (cases a; cases b) auto
  qed
qed

lemma takeWhile_nans: "takeWhile (\<lambda>(k, v). v \<noteq> None) (filter (\<lambda>(k, v). v = None) s) = []"
  by (induction s) auto

lemma dropWhile_nans:
  "dropWhile (\<lambda>(k, v). v \<noteq> None) (filter (\<lambda>(k, v). v = None) s) = filter (\<lambda>(k, v). v = None) s"
  by (induction s) auto

lemma takeWhile_numbers:
  "takeWhile (\<lambda>(k, v). v \<noteq> None) (map (\<lambda>(k, v). (k, Some v)) xs @ filter (\<lambda>(k, v). v = None) s)
     = map (\<lambda>(k, v). (k, Some v)) xs"
  by (induction xs) (auto simp: takeWhile_nans simp del: not_None_eq)

lemma dropWhile_numbers:
  "dropWhile (\<lambda>(k, v). v \<noteq> None) (map (\<lambda>(k, v). (k, Some v)) xs @ filter (\<lambda>(k, v). v = None) s)
     = filter (\<lambda>(k, v). v = None) s"
  by (induction xs) (auto simp: dropWhile_nans simp del: not_None_eq)

lemma numbers_first_sort_values_desc: "numbers_first (sort_values_desc s)"
  unfolding numbers_first_def sort_values_desc_def takeWhile_numbers dropWhile_numbers Let_def
  by (simp add: non_increasing_numbers list_all_iff del: map_map)

text \<open>
  Claim C9, amended. For every frame, the genre table and the country table of
  \<^verbatim>\<open>analyze_ratings\<close> have their numbers first: the entries whose mean is a number
  come first, in non-increasing order of the mean, and the entries whose mean is NaN follow.
\<close>

theorem tables_sorted_numbers_first:
  "case analyze_ratings df of
     (genre_ratings, country_ratings, genre_country_ratings) \<Rightarrow>
       numbers_first genre_ratings \<and> numbers_first country_ratings"
  by (simp add: analyze_ratings_def numbers_first_sort_values_desc)


theorem tables_sorted_numbers_first_witness:
  "numbers_first [(''Drama'', Some 7), (''Action'', Some 6), (''Comedy'', None)]
   \<and> numbers_first [(''USA'', Some 7), (''UK'', Some (6 :: rat))]"
  using tables_sorted_numbers_first [of sample_loaded]
  unfolding sample_loaded_tables prod.case .

section \<open>The grouped means\<close>

lemma column_mean_all_numbers:
  assumes "df \<noteq> []" "list_all (\<lambda>r. vote_average r \<noteq> None) df"
  shows "column_mean df = mean_over_rows df"
proof -
  from assms(2) have "\<forall>r \<in> set df. vote_average r \<noteq> None" by (simp add: list_all_iff)
  from column_mean_numeric[OF this assms(1)] assms(2) show ?thesis
    by (simp add: mean_over_rows_def)
qed

lemma filter_rows_none: "filter_rows None None df = df"
  by (simp add: filter_rows_def)

lemma retained_none: "retained None None df = df"
  by (simp add: retained_def)

text \<open>
  Claim C1, as stated, fails on the frame loaded from the sample table, with no filter.
  The rows of the country USA have the ratings 7 and NaN: the country table gives 7, the
  mean of the one number, while the arithmetic mean over the two rows is NaN. The only row
  of the genre Comedy has the rating NaN: the genre table gives NaN, which is the mean of
  no list of numbers.
\<close>

theorem nan_rating_is_skipped:
  "\<not> (case analyze_ratings (filter_rows None None (preprocess sample_table)) of
        (genre_ratings, country_ratings, genre_country_ratings) \<Rightarrow>
          map_of country_ratings ''USA'' =
            Some (mean_over_rows (filter (\<lambda>r. country r = Some ''USA'')
                    (retained None None (preprocess sample_table)))))
   \<and> \<not> (case analyze_ratings (filter_rows None None (preprocess sample_table)) of
        (genre_ratings, country_ratings, genre_country_ratings) \<Rightarrow>
          map_of genre_ratings ''Comedy'' =
            Some (Some (arithmetic_mean (ratings (filter (\<lambda>r. genre r = Some ''Comedy'')
                    (retained None None (preprocess sample_table)))))))"
  unfolding filter_rows_none retained_none preprocess_sample sample_loaded_tables prod.case
  by (simp add: sample_loaded_def mean_over_rows_def)

text \<open>
  Claim C1, amended. For every frame, cleaned or not: in the handler, after the rows are
  filtered by the submitted genre and country (each only when non-empty), the genre table
  maps a genre \<open>g\<close> to the arithmetic mean of the ratings that are numbers among the
  retained rows of genre \<open>g\<close>, the country table maps a country \<open>c\<close> to the arithmetic
  mean of the ratings that are numbers among the retained rows of country \<open>c\<close>, and the
  entry \<open>(g, c)\<close> of the pivot table is the arithmetic mean of the ratings that are numbers
  among the retained rows of genre \<open>g\<close> and country \<open>c\<close>. The mean of a group without a
  number is NaN, and a key without a retained row has no entry. For a group whose ratings
  are all numbers this is the arithmetic mean over all its rows.
\<close>

theorem grouped_mean_is_mean_of_numbers:
  "case analyze_ratings (filter_rows genre_field country_field df) of
     (genre_ratings, country_ratings, genre_country_ratings) \<Rightarrow>
       (let kept = retained genre_field country_field df;
            of_genre = filter (\<lambda>r. genre r = Some g) kept;
            of_country = filter (\<lambda>r. country r = Some c) kept;
            of_both = filter (\<lambda>r. genre r = Some g \<and> country r = Some c) kept
        in map_of genre_ratings g = (if of_genre = [] then None else Some (column_mean of_genre))
         \<and> map_of country_ratings c = (if of_country = [] then None else Some (column_mean of_country))
         \<and> pivot_at genre_country_ratings g c = (if of_both = [] then None else column_mean of_both)
         \<and> (\<forall>rows \<in> {of_genre, of_country, of_both}.
               rows \<noteq> [] \<and> list_all (\<lambda>r. vote_average r \<noteq> None) rows \<longrightarrow>
               column_mean rows = mean_over_rows rows))"
proof -
  let ?kept = "retained genre_field country_field df"
  have 1: "map_of (sort_values_desc (groupby_mean genre ?kept)) g =
      (if filter (\<lambda>r. genre r = Some g) ?kept = [] then None
       else Some (column_mean (filter (\<lambda>r. genre r = Some g) ?kept)))"
    by (simp add: map_of_sort_values_desc distinct_groupby_mean map_of_groupby_mean Let_def)
  have 2: "map_of (sort_values_desc (groupby_mean country ?kept)) c =
      (if filter (\<lambda>r. country r = Some c) ?kept = [] then None
       else Some (column_mean (filter (\<lambda>r. country r = Some c) ?kept)))"
    by (simp add: map_of_sort_values_desc distinct_groupby_mean map_of_groupby_mean Let_def)
  have 3: "pivot_at (pivot_table ?kept) g c =
      (if filter (\<lambda>r. genre r = Some g \<and> country r = Some c) ?kept = [] then None
       else column_mean (filter (\<lambda>r. genre r = Some g \<and> country r = Some c) ?kept))"
    by (simp add: pivot_at_pivot_table Let_def)
  have 4: "rows \<noteq> [] \<and> list_all (\<lambda>r. vote_average r \<noteq> None) rows \<longrightarrow>
      column_mean rows = mean_over_rows rows" for rows :: dataframe
    using column_mean_all_numbers[of rows] by blast
  show ?thesis
    unfolding filter_rows_retained analyze_ratings_def Let_def prod.case
    using 1 2 3 4 by blast
qed

theorem grouped_mean_is_mean_of_numbers_witness:
  "(case analyze_ratings (filter_rows None None sample_loaded) of
      (genre_ratings, country_ratings, genre_country_ratings) \<Rightarrow>
        map_of genre_ratings ''Comedy'' = Some None
      \<and> map_of country_ratings ''USA'' = Some (Some 7)
      \<and> pivot_at genre_country_ratings ''Comedy'' ''USA'' = None
      \<and> pivot_at genre_country_ratings ''Drama'' ''USA'' = Some 7)"
proof -
  have comedy: "filter (\<lambda>r. genre r = Some ''Comedy'') sample_loaded =
      [\<lparr>vote_average = None, genre = Some ''Comedy'', country = Some ''USA''\<rparr>]"
    and usa: "filter (\<lambda>r. country r = Some ''USA'') sample_loaded =
      [\<lparr>vote_average = Some 7, genre = Some ''Drama'', country = Some ''USA''\<rparr>,
       \<lparr>vote_average = None, genre = Some ''Comedy'', country = Some ''USA''\<rparr>]"
    and both: "filter (\<lambda>r. genre r = Some ''Comedy'' \<and> country r = Some ''USA'') sample_loaded =
      [\<lparr>vote_average = None, genre = Some ''Comedy'', country = Some ''USA''\<rparr>]"
    and drama: "filter (\<lambda>r. genre r = Some ''Drama'' \<and> country r = Some ''USA'') sample_loaded =
      [\<lparr>vote_average = Some 7, genre = Some ''Drama'', country = Some ''USA''\<rparr>]"
    by (simp_all add: sample_loaded_def)
  have means: "column_mean [\<lparr>vote_average = None, genre = Some ''Comedy'', country = Some ''USA''\<rparr>] = None"
    "column_mean [\<lparr>vote_average = Some 7, genre = Some ''Drama'', country = Some ''USA''\<rparr>,
       \<lparr>vote_average = None, genre = Some ''Comedy'', country = Some ''USA''\<rparr>] = Some 7"
    "column_mean [\<lparr>vote_average = Some 7, genre = Some ''Drama'', country = Some ''USA''\<rparr>] = Some 7"
    by (simp_all add: column_mean_def ratings_def arithmetic_mean_def map_filter_simps)
  note a = grouped_mean_is_mean_of_numbers
    [of None None sample_loaded "''Comedy''" "''USA''", unfolded sample_loaded_tables prod.case
      retained_none Let_def comedy usa both means]
  note b = grouped_mean_is_mean_of_numbers
    [of None None sample_loaded "''Drama''" "''USA''", unfolded sample_loaded_tables prod.case
      retained_none Let_def drama usa means]
  from a b show ?thesis
    unfolding filter_rows_none sample_loaded_tables prod.case by simp
qed

section \<open>The web application\<close>


lemma snd_generate_plots:
  "snd (generate_plots plt w df output_dir) =
     (case first_error (map plt (charts df)) of None \<Rightarrow> Inr () | Some e \<Rightarrow> Inl e)"
  by (simp add: generate_plots_def charts_def Let_def split: sum.splits)

lemma static_paths:
  "path_join ''static'' ''genre_ratings.png'' = ''static/genre_ratings.png''"
  "path_join ''static'' ''genre_country_heatmap.png'' = ''static/genre_country_heatmap.png''"
  "path_join ''static'' ''genre_boxplot.png'' = ''static/genre_boxplot.png''"
  by (simp_all add: path_join_def)

lemma read_csv_savefig:
  "p \<noteq> q \<Longrightarrow> read_csv (savefig w p img) q = read_csv w q"
  by (simp add: read_csv_def savefig_def)

lemma read_csv_makedirs: "read_csv (makedirs w p) q = read_csv w q"
  by (simp add: read_csv_def makedirs_def)

lemma read_csv_generate_plots:
  "read_csv (fst (generate_plots plt w df ''static'')) dataset_path = read_csv w dataset_path"
  by (simp add: generate_plots_def Let_def static_paths read_csv_savefig read_csv_makedirs
      dataset_path_def split: sum.splits)

lemma analyze_eq:
  "analyze plt w request_form =
     (case read_csv w dataset_path of
        Inl e \<Rightarrow> (w, Inl e)
      | Inr raw \<Rightarrow>
          (fst (generate_plots plt w (preprocess raw) ''static''),
           case first_error (map plt (charts (preprocess raw))) of
             Some e \<Rightarrow> Inl e
           | None \<Rightarrow> Inr (results_page (analyze_ratings
                (filter_rows (request_form ''genre'') (request_form ''country'') (preprocess raw))))))"
proof (cases "read_csv w dataset_path")
  case (Inl e)
  then show ?thesis by (simp add: analyze_def load_and_preprocess_data_def)
next
  case (Inr raw)
  obtain w' r where g: "generate_plots plt w (preprocess raw) ''static'' = (w', r)"
    by (cases "generate_plots plt w (preprocess raw) ''static''")
  have r: "r = (case first_error (map plt (charts (preprocess raw))) of None \<Rightarrow> Inr () | Some e \<Rightarrow> Inl e)"
    using snd_generate_plots[of plt w "preprocess raw" "''static''"] g by simp
  show ?thesis
    using Inr g r
    by (simp add: analyze_def load_and_preprocess_data_def results_page_def Let_def
        split: sum.splits option.splits prod.splits)
qed

lemma read_csv_analyze:
  "read_csv (fst (analyze plt w request_form)) dataset_path = read_csv w dataset_path"
  by (simp add: analyze_eq read_csv_generate_plots split: sum.splits)

lemma snd_analyze_cong:
  assumes "read_csv w1 dataset_path = read_csv w2 dataset_path"
    and "form1 ''genre'' = form2 ''genre''" and "form1 ''country'' = form2 ''country''"
  shows "snd (analyze plt w1 form1) = snd (analyze plt w2 form2)"
  using assms by (simp add: analyze_eq split: sum.splits option.splits)

lemma url_map_rules:
  "url_map =
     [(PathUnder ''/static/'', [GET, HEAD, OPTIONS], Static),
      (Exact ''/'', [GET, HEAD, OPTIONS], Index),
      (Exact ''/analyze'', [POST, OPTIONS], Analyze)]"
  by (simp add: url_map_def add_url_rule_def)

lemma match_rule_under:
  assumes "match_rule (PathUnder p) path = Some rest"
  shows "path = p @ rest \<and> rest \<noteq> [] \<and> hd rest \<noteq> CHR ''/''"
proof -
  from assms have "take (length p) path = p" "rest = drop (length p) path"
    "rest \<noteq> []" "hd rest \<noteq> CHR ''/''"
    by (auto simp: Let_def split: if_splits)
  then show ?thesis by (metis append_take_drop_id)
qed

lemma match_rule_under_append:
  "rest \<noteq> [] \<Longrightarrow> hd rest \<noteq> CHR ''/'' \<Longrightarrow> match_rule (PathUnder p) (p @ rest) = Some rest"
  by (simp add: Let_def)

lemma find_rule_index: "find_rule url_map ''/'' = Some ([], [GET, HEAD, OPTIONS], Index)"
  by (simp add: url_map_rules Let_def)

lemma find_rule_analyze: "find_rule url_map ''/analyze'' = Some ([], [POST, OPTIONS], Analyze)"
  by (simp add: url_map_rules Let_def)

lemma find_rule_static:
  assumes "arg \<noteq> []" "hd arg \<noteq> CHR ''/''"
  shows "find_rule url_map (''/static/'' @ arg) = Some (arg, [GET, HEAD, OPTIONS], Static)"
  unfolding url_map_rules find_rule.simps match_rule_under_append[OF assms]
  by (simp only: option.case)

lemma find_rule_cases:
  assumes "find_rule url_map path = Some (arg, methods, ep)"
  shows "(ep = Index \<and> path = ''/'' \<and> methods = [GET, HEAD, OPTIONS])
       \<or> (ep = Analyze \<and> path = ''/analyze'' \<and> methods = [POST, OPTIONS])
       \<or> (ep = Static \<and> path = ''/static/'' @ arg \<and> methods = [GET, HEAD, OPTIONS])"
proof (cases "match_rule (PathUnder ''/static/'') path")
  case (Some rest)
  from match_rule_under[OF Some] have "path = ''/static/'' @ rest" by blast
  moreover from assms have "rest = arg" "methods = [GET, HEAD, OPTIONS]" "ep = Static"
    unfolding url_map_rules find_rule.simps Some by simp_all
  ultimately show ?thesis by blast
next
  case None
  from assms have "(case match_rule (Exact ''/'') path of
        Some a \<Rightarrow> Some (a, [GET, HEAD, OPTIONS], Index)
      | None \<Rightarrow> (case match_rule (Exact ''/analyze'') path of
          Some a \<Rightarrow> Some (a, [POST, OPTIONS], Analyze)
        | None \<Rightarrow> None)) = Some (arg, methods, ep)"
    unfolding url_map_rules find_rule.simps None by simp
  then show ?thesis by (auto split: if_splits)
qed

lemma read_csv_view:
  "read_csv (fst (view plt ep arg w request_form)) dataset_path = read_csv w dataset_path"
proof (cases ep)
  case Static
  then show ?thesis by (simp add: view_def split: option.splits)
next
  case Index
  then show ?thesis by (simp add: view_def)
next
  case Analyze
  obtain w' r where a: "analyze plt w request_form = (w', r)"
    by (cases "analyze plt w request_form")
  then have "read_csv w' dataset_path = read_csv w dataset_path"
    using read_csv_analyze[of plt w request_form] by simp
  with Analyze a show ?thesis by (cases r) (simp_all add: view_def)
qed

lemma read_csv_dispatch:
  "read_csv (fst (dispatch plt w m path request_form)) dataset_path = read_csv w dataset_path"
proof (cases "find_rule url_map path")
  case None
  then show ?thesis by (simp add: dispatch_def)
next
  case (Some t)
  obtain arg methods ep where t: "t = (arg, methods, ep)" by (cases t)
  obtain w' r where v: "view plt ep arg w request_form = (w', r)"
    by (cases "view plt ep arg w request_form")
  then have "read_csv w' dataset_path = read_csv w dataset_path"
    using read_csv_view[of plt ep arg w request_form] by simp
  with Some t v show ?thesis by (simp add: dispatch_def)
qed

lemma read_csv_serve: "read_csv (serve plt w rs) dataset_path = read_csv w dataset_path"
  by (induction rs arbitrary: w) (auto simp: read_csv_dispatch)

lemma dispatch_analyze:
  "dispatch plt w POST ''/analyze'' request_form =
     (fst (analyze plt w request_form), Handled (map_sum id Page (snd (analyze plt w request_form))))"
proof -
  obtain w' r where a: "analyze plt w request_form = (w', r)"
    by (cases "analyze plt w request_form")
  then show ?thesis
    by (cases r) (simp_all add: dispatch_def find_rule_analyze view_def)
qed

lemma dispatch_index:
  "dispatch plt w GET ''/'' request_form = (w, Handled (Inr (Page index_html)))"
  by (simp add: dispatch_def find_rule_index view_def index_def)

lemma dispatch_head_index: "dispatch plt w HEAD ''/'' request_form = (w, Handled (Inr NoBody))"
  by (simp add: dispatch_def find_rule_index view_def)

lemma dispatch_static:
  assumes "arg \<noteq> []" "hd arg \<noteq> CHR ''/''" "files w (''static/'' @ arg) = Some c"
  shows "dispatch plt w GET (''/static/'' @ arg) request_form = (w, Handled (Inr (StaticFile c)))"
proof -
  have "path_join ''static'' arg = ''static/'' @ arg"
    using assms(1,2) by (simp add: path_join_def)
  with assms(3) show ?thesis
    unfolding dispatch_def find_rule_static[OF assms(1,2)] by (simp add: view_def)
qed

lemma view_handled:
  assumes "snd (view plt ep arg w request_form) = Handled r"
  shows "ep = Index \<or> ep = Analyze \<or> (ep = Static \<and> (\<exists>c. files w (path_join ''static'' arg) = Some c))"
  using assms by (cases ep) (auto simp: view_def split: option.splits)

lemma without_body_handled: "without_body r = Handled x \<Longrightarrow> \<exists>x'. r = Handled x'"
  by (cases r rule: without_body.cases) simp_all

lemma dispatch_handled:
  assumes "snd (dispatch plt w m path request_form) = Handled r"
  shows "((m = GET \<or> m = HEAD) \<and> path = ''/'')
       \<or> (m = POST \<and> path = ''/analyze'')
       \<or> ((m = GET \<or> m = HEAD)
            \<and> (\<exists>filename c. path = ''/static/'' @ filename
                  \<and> files w (path_join ''static'' filename) = Some c))"
proof (cases "find_rule url_map path")
  case None
  with assms show ?thesis by (simp add: dispatch_def)
next
  case (Some t)
  obtain arg methods ep where t: "t = (arg, methods, ep)" by (cases t)
  obtain w' r' where v: "view plt ep arg w request_form = (w', r')"
    by (cases "view plt ep arg w request_form")
  from assms Some t v have m: "m \<in> set methods" "m \<noteq> OPTIONS"
    and r': "(if m = HEAD then without_body r' else r') = Handled r"
    by (simp_all add: dispatch_def split: if_splits)
  from r' obtain x where "r' = Handled x"
    by (cases "m = HEAD") (auto dest: without_body_handled)
  with v have h: "snd (view plt ep arg w request_form) = Handled x" by simp
  from Some t have "find_rule url_map path = Some (arg, methods, ep)" by simp
  from find_rule_cases[OF this] view_handled[OF h] m show ?thesis
    by auto
qed

lemma read_csv_sample: "read_csv sample_world dataset_path = Inr sample_table"
  by (simp add: read_csv_def sample_world_def)

lemma drama_tables:
  "analyze_ratings (filter_rows (Some ''Drama'') None sample_loaded) =
     ([(''Drama'', Some 7)], [(''USA'', Some 7)],
      \<lparr>pv_index = [''Drama''], pv_columns = [''USA''], pv_cells = [((''Drama'', ''USA''), 7)]\<rparr>)"
  by code_simp

lemma tables_results_page:
  "tables (results_page (gr, cr, gcr)) = [rounded gr, rounded cr]"
  by (simp add: results_page_def results_html_def rounded_def)

lemma images_results_page:
  "images (results_page t) =
     [''static/genre_ratings.png'', ''static/genre_country_heatmap.png'', ''static/genre_boxplot.png'']"
  by (cases t) (simp add: results_page_def results_html_def)

lemma analyze_page:
  assumes "snd (analyze plt w request_form) = Inr page"
  shows "\<exists>raw. read_csv w dataset_path = Inr raw
           \<and> first_error (map plt (charts (preprocess raw))) = None
           \<and> page = results_page (analyze_ratings
                 (filter_rows (request_form ''genre'') (request_form ''country'') (preprocess raw)))"
proof (cases "read_csv w dataset_path")
  case (Inl e)
  with assms show ?thesis by (simp add: analyze_eq)
next
  case (Inr raw)
  show ?thesis
  proof (cases "first_error (map plt (charts (preprocess raw)))")
    case None
    with assms Inr show ?thesis by (simp add: analyze_eq)
  next
    case (Some e)
    with assms Inr show ?thesis by (simp add: analyze_eq)
  qed
qed

lemma generate_plots_files:
  assumes "snd (generate_plots plt w df ''static'') = Inr u"
    and "p \<in> {''static/genre_ratings.png'', ''static/genre_country_heatmap.png'',
              ''static/genre_boxplot.png''}"
  shows "\<exists>img. files (fst (generate_plots plt w df ''static'')) p = Some (ImageFile img)"
  using assms
  by (auto simp: generate_plots_def Let_def static_paths savefig_def makedirs_def
      split: sum.splits)

lemma analyze_files:
  assumes "snd (analyze plt w request_form) = Inr page"
    and "p \<in> {''static/genre_ratings.png'', ''static/genre_country_heatmap.png'',
              ''static/genre_boxplot.png''}"
  shows "\<exists>img. files (fst (analyze plt w request_form)) p = Some (ImageFile img)"
proof -
  from analyze_page[OF assms(1)] obtain raw where raw: "read_csv w dataset_path = Inr raw"
    and ok: "first_error (map plt (charts (preprocess raw))) = None"
    by blast
  from ok have "snd (generate_plots plt w (preprocess raw) ''static'') = Inr ()"
    by (simp add: snd_generate_plots)
  from generate_plots_files[OF this assms(2)] raw show ?thesis
    by (simp add: analyze_eq)
qed

lemma static_link:
  assumes "src \<in> {''static/genre_ratings.png'', ''static/genre_country_heatmap.png'',
                ''static/genre_boxplot.png''}"
    and "files w src = Some c"
  shows "dispatch plt w GET (''/'' @ src) request_form = (w, Handled (Inr (StaticFile c)))"
proof -
  from assms(1) obtain arg where src: "src = ''static/'' @ arg" and arg: "arg \<noteq> []" "hd arg \<noteq> CHR ''/''"
    by (elim insertE emptyE) simp_all
  from dispatch_static[OF arg, of w c plt request_form] assms(2)
  show ?thesis by (simp add: src)
qed

lemma first_error_always: "first_error (map always_plots cs) = None"
  by (induction cs) (auto simp: always_plots_def)

lemma sample_drama_page:
  "snd (dispatch always_plots sample_world POST ''/analyze'' drama_form) =
     Handled (Inr (Page (results_page (analyze_ratings (filter_rows (Some ''Drama'') None sample_loaded)))))"
  by (simp add: dispatch_analyze analyze_eq read_csv_sample preprocess_sample first_error_always
      drama_form_def)

lemma sample_drama_analyze:
  "snd (analyze always_plots sample_world drama_form) =
     Inr (results_page (analyze_ratings (filter_rows (Some ''Drama'') None sample_loaded)))"
  by (simp add: analyze_eq read_csv_sample preprocess_sample first_error_always drama_form_def)

text \<open>
  Claim C3, as stated, fails: the application has three rules, not two. After one request
  to \<^verbatim>\<open>/analyze\<close> on the sample world, a GET of
  \<^verbatim>\<open>/static/genre_ratings.png\<close> is answered with the bar chart the handler saved,
  and a HEAD of \<^verbatim>\<open>/\<close> runs the home view.
\<close>

theorem static_route_is_served:
  "length url_map \<noteq> 2
   \<and> snd (dispatch always_plots (serve always_plots sample_world [(POST, ''/analyze'', drama_form)])
           GET ''/static/genre_ratings.png'' Map.empty) = Handled (Inr (StaticFile (ImageFile ())))
   \<and> snd (dispatch always_plots sample_world HEAD ''/'' Map.empty) = Handled (Inr NoBody)"
proof -
  let ?w = "fst (analyze always_plots sample_world drama_form)"
  have w: "serve always_plots sample_world [(POST, ''/analyze'', drama_form)] = ?w"
    by (simp add: dispatch_analyze)
  from analyze_files[OF sample_drama_analyze, of "''static/genre_ratings.png''"]
  have f: "files ?w ''static/genre_ratings.png'' = Some (ImageFile ())" by simp
  have "dispatch always_plots ?w GET (''/'' @ ''static/genre_ratings.png'') Map.empty
          = (?w, Handled (Inr (StaticFile (ImageFile ()))))"
    by (rule static_link[OF _ f]) simp
  then have 2: "snd (dispatch always_plots ?w GET ''/static/genre_ratings.png'' Map.empty)
      = Handled (Inr (StaticFile (ImageFile ())))" by simp
  have 1: "length url_map \<noteq> 2" by (simp add: url_map_def)
  have 3: "snd (dispatch always_plots sample_world HEAD ''/'' Map.empty) = Handled (Inr NoBody)"
    by (simp add: dispatch_head_index)
  from 1 2 3 show ?thesis unfolding w by (intro conjI)
qed

text \<open>
  Claim C3, amended. The application has exactly three rules: the two the script
  registers, \<^verbatim>\<open>/\<close> for GET and \<^verbatim>\<open>/analyze\<close> for POST, and the
  framework's rule for the files of the static folder; GET rules also accept HEAD, and
  every rule OPTIONS. A request reaches a view only as a GET or HEAD of \<^verbatim>\<open>/\<close>, a
  POST of \<^verbatim>\<open>/analyze\<close>, or a GET or HEAD of a file the static folder holds. The
  home route returns the same form page whatever the world and the request are; the form
  posts the fields genre and country to \<^verbatim>\<open>/analyze\<close>. The reply of
  \<^verbatim>\<open>/analyze\<close> depends on the form only through the fields genre and country,
  and a body it returns is a page that holds exactly two tables, the genre averages and the
  country averages of the filtered frame (rounded to two places), and exactly three image
  links: the bar chart, the heatmap and the box plot, each of which the static rule then
  serves.
\<close>

theorem routes_of_the_application:
  "map (\<lambda>(r, methods, ep). (r, methods)) url_map =
     [(PathUnder ''/static/'', [GET, HEAD, OPTIONS]), (Exact ''/'', [GET, HEAD, OPTIONS]),
      (Exact ''/analyze'', [POST, OPTIONS])]
   \<and> map (\<lambda>(r, methods, ep). ep) url_map = [Static, Index, Analyze]
   \<and> dispatch plt w GET ''/'' request_form = (w, Handled (Inr (Page index_html)))
   \<and> index_html = [Title ''IMDB Movie Ratings Analysis'', H1 ''IMDB Movie Ratings Analysis'',
                    Form ''/analyze'' ''post'' [''genre'', ''country''] ''Analyze'']
   \<and> (\<forall>m path r. snd (dispatch plt w m path request_form) = Handled r \<longrightarrow>
         ((m = GET \<or> m = HEAD) \<and> path = ''/'')
       \<or> (m = POST \<and> path = ''/analyze'')
       \<or> ((m = GET \<or> m = HEAD)
            \<and> (\<exists>filename c. path = ''/static/'' @ filename
                  \<and> files w (path_join ''static'' filename) = Some c)))
   \<and> (\<forall>form2. form2 ''genre'' = request_form ''genre'' \<and> form2 ''country'' = request_form ''country''
         \<longrightarrow> snd (dispatch plt w POST ''/analyze'' form2) = snd (dispatch plt w POST ''/analyze'' request_form))
   \<and> (\<forall>b. snd (dispatch plt w POST ''/analyze'' request_form) = Handled (Inr b) \<longrightarrow>
         (\<exists>page df. b = Page page
            \<and> load_and_preprocess_data w dataset_path = Inr df
            \<and> (case analyze_ratings (filter_rows (request_form ''genre'') (request_form ''country'') df) of
                 (genre_ratings, country_ratings, genre_country_ratings) \<Rightarrow>
                    tables page = [rounded genre_ratings, rounded country_ratings])
            \<and> images page = [''static/genre_ratings.png'', ''static/genre_country_heatmap.png'',
                              ''static/genre_boxplot.png'']
            \<and> list_all (\<lambda>src. \<exists>img.
                  snd (dispatch plt (fst (dispatch plt w POST ''/analyze'' request_form))
                        GET (''/'' @ src) Map.empty) = Handled (Inr (StaticFile (ImageFile img))))
                (images page)))"
proof (intro conjI allI impI)
  show "map (\<lambda>(r, methods, ep). (r, methods)) url_map =
     [(PathUnder ''/static/'', [GET, HEAD, OPTIONS]), (Exact ''/'', [GET, HEAD, OPTIONS]),
      (Exact ''/analyze'', [POST, OPTIONS])]"
    by (simp add: url_map_def add_url_rule_def)
  show "map (\<lambda>(r, methods, ep). ep) url_map = [Static, Index, Analyze]"
    by (simp add: url_map_def add_url_rule_def)
  show "dispatch plt w GET ''/'' request_form = (w, Handled (Inr (Page index_html)))"
    by (rule dispatch_index)
  show "index_html = [Title ''IMDB Movie Ratings Analysis'', H1 ''IMDB Movie Ratings Analysis'',
                    Form ''/analyze'' ''post'' [''genre'', ''country''] ''Analyze'']"
    by (simp add: index_html_def)
next
  fix m path r
  assume "snd (dispatch plt w m path request_form) = Handled r"
  then show "((m = GET \<or> m = HEAD) \<and> path = ''/'')
       \<or> (m = POST \<and> path = ''/analyze'')
       \<or> ((m = GET \<or> m = HEAD)
            \<and> (\<exists>filename c. path = ''/static/'' @ filename
                  \<and> files w (path_join ''static'' filename) = Some c))"
    by (rule dispatch_handled)
next
  fix form2 :: form
  assume "form2 ''genre'' = request_form ''genre'' \<and> form2 ''country'' = request_form ''country''"
  then show "snd (dispatch plt w POST ''/analyze'' form2) = snd (dispatch plt w POST ''/analyze'' request_form)"
    using snd_analyze_cong[of w w form2 request_form plt] by (simp add: dispatch_analyze)
next
  fix b
  assume "snd (dispatch plt w POST ''/analyze'' request_form) = Handled (Inr b)"
  then have "map_sum id Page (snd (analyze plt w request_form)) = Inr b"
    by (simp add: dispatch_analyze)
  then obtain page where a: "snd (analyze plt w request_form) = Inr page" and b: "b = Page page"
    by (cases "snd (analyze plt w request_form)") auto
  from analyze_page[OF a] obtain raw where raw: "read_csv w dataset_path = Inr raw"
    and page: "page = results_page (analyze_ratings
        (filter_rows (request_form ''genre'') (request_form ''country'') (preprocess raw)))"
    by blast
  let ?w' = "fst (dispatch plt w POST ''/analyze'' request_form)"
  have w': "?w' = fst (analyze plt w request_form)" by (simp add: dispatch_analyze)
  have l: "load_and_preprocess_data w dataset_path = Inr (preprocess raw)"
    by (simp add: load_and_preprocess_data_def raw)
  have t: "case analyze_ratings (filter_rows (request_form ''genre'') (request_form ''country'') (preprocess raw)) of
       (genre_ratings, country_ratings, genre_country_ratings) \<Rightarrow>
          tables page = [rounded genre_ratings, rounded country_ratings]"
    by (simp add: page tables_results_page split: prod.splits)
  have i: "images page = [''static/genre_ratings.png'', ''static/genre_country_heatmap.png'',
                              ''static/genre_boxplot.png'']"
    by (simp add: page images_results_page)
  have served: "\<exists>img. snd (dispatch plt ?w' GET (''/'' @ src) Map.empty)
                     = Handled (Inr (StaticFile (ImageFile img)))"
    if src: "src \<in> {''static/genre_ratings.png'', ''static/genre_country_heatmap.png'',
                ''static/genre_boxplot.png''}" for src
  proof -
    from analyze_files[OF a src] obtain img where "files ?w' src = Some (ImageFile img)"
      unfolding w' by blast
    from static_link[OF src this, of plt Map.empty] show ?thesis by auto
  qed
  have s: "list_all (\<lambda>src. \<exists>img.
                  snd (dispatch plt ?w' GET (''/'' @ src) Map.empty) = Handled (Inr (StaticFile (ImageFile img))))
                (images page)"
    unfolding i list_all_iff using served by simp
  from b l t i s
  show "\<exists>page df. b = Page page
            \<and> load_and_preprocess_data w dataset_path = Inr df
            \<and> (case analyze_ratings (filter_rows (request_form ''genre'') (request_form ''country'') df) of
                 (genre_ratings, country_ratings, genre_country_ratings) \<Rightarrow>
                    tables page = [rounded genre_ratings, rounded country_ratings])
            \<and> images page = [''static/genre_ratings.png'', ''static/genre_country_heatmap.png'',
                              ''static/genre_boxplot.png'']
            \<and> list_all (\<lambda>src. \<exists>img.
                  snd (dispatch plt ?w' GET (''/'' @ src) Map.empty) = Handled (Inr (StaticFile (ImageFile img))))
                (images page)"
    by (intro exI conjI)
qed

theorem routes_of_the_application_witness:
  "snd (dispatch always_plots sample_world POST ''/analyze'' drama_form) =
     Handled (Inr (Page (results_page (analyze_ratings (filter_rows (Some ''Drama'') None sample_loaded)))))
   \<and> load_and_preprocess_data sample_world dataset_path = Inr sample_loaded
   \<and> tables (results_page (analyze_ratings (filter_rows (Some ''Drama'') None sample_loaded))) =
        [[(''Drama'', Some 7)], [(''USA'', Some 7)]]
   \<and> images (results_page (analyze_ratings (filter_rows (Some ''Drama'') None sample_loaded))) =
        [''static/genre_ratings.png'', ''static/genre_country_heatmap.png'', ''static/genre_boxplot.png'']"
proof -
  let ?page = "results_page (analyze_ratings (filter_rows (Some ''Drama'') None sample_loaded))"
  note last = routes_of_the_application [of always_plots sample_world drama_form,
      THEN conjunct2, THEN conjunct2, THEN conjunct2, THEN conjunct2, THEN conjunct2, THEN conjunct2,
      rule_format, OF sample_drama_page]
  then obtain page where "\<exists>df. (Page ?page :: unit body) = Page page
      \<and> load_and_preprocess_data sample_world dataset_path = Inr df
      \<and> (case analyze_ratings (filter_rows (drama_form ''genre'') (drama_form ''country'') df) of
           (genre_ratings, country_ratings, genre_country_ratings) \<Rightarrow>
             tables page = [rounded genre_ratings, rounded country_ratings])
      \<and> images page =
        [''static/genre_ratings.png'', ''static/genre_country_heatmap.png'', ''static/genre_boxplot.png'']
      \<and> list_all (\<lambda>src. \<exists>img.
            snd (dispatch always_plots (fst (dispatch always_plots sample_world POST ''/analyze'' drama_form))
                  GET (''/'' @ src) Map.empty) = Handled (Inr (StaticFile (ImageFile img))))
          (images page)" ..
  then obtain df where c: "(Page ?page :: unit body) = Page page
      \<and> load_and_preprocess_data sample_world dataset_path = Inr df
      \<and> (case analyze_ratings (filter_rows (drama_form ''genre'') (drama_form ''country'') df) of
           (genre_ratings, country_ratings, genre_country_ratings) \<Rightarrow>
             tables page = [rounded genre_ratings, rounded country_ratings])
      \<and> images page =
        [''static/genre_ratings.png'', ''static/genre_country_heatmap.png'', ''static/genre_boxplot.png'']
      \<and> list_all (\<lambda>src. \<exists>img.
            snd (dispatch always_plots (fst (dispatch always_plots sample_world POST ''/analyze'' drama_form))
                  GET (''/'' @ src) Map.empty) = Handled (Inr (StaticFile (ImageFile img))))
          (images page)" ..
  note p = c[THEN conjunct1]
    and df = c[THEN conjunct2, THEN conjunct1]
    and t = c[THEN conjunct2, THEN conjunct2, THEN conjunct1]
    and i = c[THEN conjunct2, THEN conjunct2, THEN conjunct2, THEN conjunct1]
  from p have page: "page = ?page" by simp
  from df have "df = sample_loaded" by (simp add: load_sample)
  with t have "tables ?page = [[(''Drama'', Some 7)], [(''USA'', Some 7)]]"
    unfolding page
    by (simp add: drama_form_def drama_tables rounded_def round2_def round_half_even_def)
  with i show ?thesis
    unfolding page using sample_drama_page load_sample by (intro conjI)
qed

text \<open>
  Claim C5. Start from any world and serve any two sequences of requests. A POST to
  \<^verbatim>\<open>/analyze\<close> after the one and a POST after the other, with the same genre and
  country fields, get the same reply: the same page, with the same tables, or the same
  exception.
\<close>

theorem response_independent_of_history:
  assumes "form1 ''genre'' = form2 ''genre''" and "form1 ''country'' = form2 ''country''"
  shows "snd (dispatch plt (serve plt w rs1) POST ''/analyze'' form1)
       = snd (dispatch plt (serve plt w rs2) POST ''/analyze'' form2)"
proof -
  have "read_csv (serve plt w rs1) dataset_path = read_csv (serve plt w rs2) dataset_path"
    by (simp add: read_csv_serve)
  then have "snd (analyze plt (serve plt w rs1) form1) = snd (analyze plt (serve plt w rs2) form2)"
    using assms by (rule snd_analyze_cong)
  then show ?thesis by (simp add: dispatch_analyze)
qed

theorem response_independent_of_history_witness:
  "snd (dispatch always_plots (serve always_plots sample_world []) POST ''/analyze'' drama_form)
     = snd (dispatch always_plots (serve always_plots sample_world history) POST ''/analyze''
             (drama_form(''page'' \<mapsto> ''2'')))"
  by (rule response_independent_of_history) (simp_all add: drama_form_def)

text \<open>
  Claim C6. An exception of \<^verbatim>\<open>read_csv\<close> is the result of
  \<^verbatim>\<open>load_and_preprocess_data\<close> and of the handler, which then leaves the world as
  it was; the first exception of the plotting library is the result of
  \<^verbatim>\<open>generate_plots\<close> and of the handler; in each case the result is the exception
  and no page. Conversely, an exception the handler ends with is one that
  \<^verbatim>\<open>read_csv\<close> or the plotting library raised.
\<close>

theorem library_exceptions_propagate:
  "(read_csv w file_path = Inl e \<longrightarrow> load_and_preprocess_data w file_path = Inl e)
   \<and> (read_csv w dataset_path = Inl e \<longrightarrow> analyze plt w request_form = (w, Inl e))
   \<and> (first_error (map plt (charts df)) = Some e \<longrightarrow>
         snd (generate_plots plt w df output_dir) = Inl e)
   \<and> (load_and_preprocess_data w dataset_path = Inr df \<and> first_error (map plt (charts df)) = Some e \<longrightarrow>
         snd (analyze plt w request_form) = Inl e)
   \<and> (snd (analyze plt w request_form) = Inl e \<longrightarrow>
         read_csv w dataset_path = Inl e \<or> (\<exists>c. plt c = Inl e))"
proof (intro conjI impI)
  assume "read_csv w file_path = Inl e"
  then show "load_and_preprocess_data w file_path = Inl e"
    by (simp add: load_and_preprocess_data_def)
next
  assume "read_csv w dataset_path = Inl e"
  then show "analyze plt w request_form = (w, Inl e)"
    by (simp add: analyze_eq)
next
  assume "first_error (map plt (charts df)) = Some e"
  then show "snd (generate_plots plt w df output_dir) = Inl e"
    by (simp add: snd_generate_plots)
next
  assume a: "load_and_preprocess_data w dataset_path = Inr df \<and> first_error (map plt (charts df)) = Some e"
  then obtain raw where "read_csv w dataset_path = Inr raw" "df = preprocess raw"
    by (auto simp: load_and_preprocess_data_def split: sum.splits)
  with a show "snd (analyze plt w request_form) = Inl e"
    by (simp add: analyze_eq)
next
  assume a: "snd (analyze plt w request_form) = Inl e"
  have fe: "first_error (map plt cs) = Some e \<Longrightarrow> \<exists>c. plt c = Inl e" for cs
  proof (induction cs)
    case Nil
    then show ?case by simp
  next
    case (Cons c cs)
    then show ?case by (cases "plt c") auto
  qed
  show "read_csv w dataset_path = Inl e \<or> (\<exists>c. plt c = Inl e)"
  proof (cases "read_csv w dataset_path")
    case (Inl e')
    with a show ?thesis by (simp add: analyze_eq)
  next
    case (Inr raw)
    show ?thesis
    proof (cases "first_error (map plt (charts (preprocess raw)))")
      case None
      with a Inr show ?thesis by (simp add: analyze_eq)
    next
      case (Some e')
      with a Inr have "e' = e" by (simp add: analyze_eq)
      with Some fe show ?thesis by blast
    qed
  qed
qed

lemma read_csv_empty: "read_csv empty_world p = Inl FileNotFoundError"
  by (simp add: read_csv_def empty_world_def)

lemma heatmap_fails_first_error: "first_error (map heatmap_fails (charts df)) = Some ValueError"
  by (simp add: charts_def heatmap_fails_def)

theorem library_exceptions_propagate_witness:
  "load_and_preprocess_data empty_world dataset_path = Inl FileNotFoundError
   \<and> analyze always_plots empty_world drama_form = (empty_world, Inl FileNotFoundError)
   \<and> snd (generate_plots heatmap_fails sample_world sample_loaded ''static'') = Inl ValueError
   \<and> snd (analyze heatmap_fails sample_world drama_form) = Inl ValueError"
proof -
  note t = library_exceptions_propagate
  have 1: "load_and_preprocess_data empty_world dataset_path = Inl FileNotFoundError"
    using t [where w = empty_world and file_path = dataset_path and e = FileNotFoundError, THEN conjunct1] read_csv_empty by blast
  have 2: "analyze always_plots empty_world drama_form = (empty_world, Inl FileNotFoundError)"
    using t [where w = empty_world and e = FileNotFoundError and plt = always_plots
        and request_form = drama_form, THEN conjunct2, THEN conjunct1] read_csv_empty by blast
  have 3: "snd (generate_plots heatmap_fails sample_world sample_loaded ''static'') = Inl ValueError"
    using t [where w = sample_world and e = ValueError and plt = heatmap_fails and df = sample_loaded
        and output_dir = "''static''", THEN conjunct2, THEN conjunct2, THEN conjunct1] heatmap_fails_first_error by blast
  have 4: "snd (analyze heatmap_fails sample_world drama_form) = Inl ValueError"
    using t [where w = sample_world and e = ValueError and plt = heatmap_fails and df = sample_loaded
        and request_form = drama_form, THEN conjunct2, THEN conjunct2, THEN conjunct2, THEN conjunct1]
      heatmap_fails_first_error load_sample by blast
  from 1 2 3 4 show ?thesis by (intro conjI)
qed

text \<open>
  Claim C8. No row of a loaded frame has the country \<^verbatim>\<open>United States\<close> or
  \<^verbatim>\<open>United Kingdom\<close>; so the handler's filter for the country field
  \<^verbatim>\<open>United States\<close> retains no row, the analysis of the retained rows gives empty
  tables, and the page the handler returns for that country field is the page of the empty
  tables.
\<close>

theorem country_names_standardized:
  "(load_and_preprocess_data w file_path = Inr df \<longrightarrow>
      list_all (\<lambda>r. country r \<noteq> Some ''United States'' \<and> country r \<noteq> Some ''United Kingdom'') df
      \<and> filter_rows genre_field (Some ''United States'') df = []
      \<and> analyze_ratings (filter_rows genre_field (Some ''United States'') df) = no_tables)
   \<and> (request_form ''country'' = Some ''United States'' \<and> snd (analyze plt w request_form) = Inr page
        \<longrightarrow> page = results_page no_tables)"
proof (intro conjI impI)
  have empty: "filter_rows g (Some ''United States'') (preprocess raw) = []" for g raw
  proof -
    have "filter (\<lambda>r. country r = Some ''United States'') xs = []"
      if "set xs \<subseteq> set (preprocess raw)" for xs
      using that preprocess_country[of _ raw] by (auto simp: filter_empty_conv)
    then show ?thesis by (simp add: filter_rows_def Let_def)
  qed
  {
    assume "load_and_preprocess_data w file_path = Inr df"
    then obtain raw where df: "df = preprocess raw"
      by (auto simp: load_and_preprocess_data_def split: sum.splits)
    show "list_all (\<lambda>r. country r \<noteq> Some ''United States'' \<and> country r \<noteq> Some ''United Kingdom'') df"
      unfolding df list_all_iff using preprocess_country by blast
    show "filter_rows genre_field (Some ''United States'') df = []"
      unfolding df by (rule empty)
    then show "analyze_ratings (filter_rows genre_field (Some ''United States'') df) = no_tables"
      by (simp add: analyze_ratings_empty)
  }
  {
    assume a: "request_form ''country'' = Some ''United States'' \<and> snd (analyze plt w request_form) = Inr page"
    then obtain raw where "page = results_page (analyze_ratings
        (filter_rows (request_form ''genre'') (request_form ''country'') (preprocess raw)))"
      using analyze_page[of plt w request_form page] by blast
    with a show "page = results_page no_tables"
      by (simp add: empty analyze_ratings_empty)
  }
qed

lemma sample_united_states_page:
  "snd (analyze always_plots sample_world united_states_form) =
     Inr (results_page (analyze_ratings (filter_rows (Some ''Drama'') (Some ''United States'') sample_loaded)))"
  by (simp add: analyze_eq read_csv_sample preprocess_sample first_error_always united_states_form_def)

theorem country_names_standardized_witness:
  "load_and_preprocess_data sample_world dataset_path = Inr sample_loaded
   \<and> list_all (\<lambda>r. country r \<noteq> Some ''United States'' \<and> country r \<noteq> Some ''United Kingdom'') sample_loaded
   \<and> filter_rows (Some ''Drama'') (Some ''United States'') sample_loaded = []
   \<and> snd (analyze always_plots sample_world united_states_form) = Inr (results_page no_tables)"
proof -
  note t = country_names_standardized
    [where w = sample_world and file_path = dataset_path and df = sample_loaded
       and genre_field = "Some ''Drama''" and request_form = united_states_form and plt = always_plots
       and page = "results_page (analyze_ratings (filter_rows (Some ''Drama'') (Some ''United States'') sample_loaded))"]
  have a: "list_all (\<lambda>r. country r \<noteq> Some ''United States'' \<and> country r \<noteq> Some ''United Kingdom'') sample_loaded
      \<and> filter_rows (Some ''Drama'') (Some ''United States'') sample_loaded = []
      \<and> analyze_ratings (filter_rows (Some ''Drama'') (Some ''United States'') sample_loaded) = no_tables"
    using t [THEN conjunct1] load_sample by blast
  have "united_states_form ''country'' = Some ''United States''"
    by (simp add: united_states_form_def)
  then have b: "results_page (analyze_ratings (filter_rows (Some ''Drama'') (Some ''United States'') sample_loaded))
      = results_page no_tables"
    using t [THEN conjunct2] sample_united_states_page by blast
  from a b show ?thesis
    using load_sample sample_united_states_page by simp
qed

section \<open>The iris classifier\<close>


lemma kneighbors_nearest:
  assumes "length (fit_X model) = length (fit_y model)" "n_neighbors model \<le> length (fit_X model)"
  shows "nearest (n_neighbors model) (zip (fit_X model) (fit_y model)) x (kneighbors model x)"
proof -
  let ?train = "zip (fit_X model) (fit_y model)"
  let ?f = "\<lambda>(t, l :: int). sqdist x t"
  let ?s = "sort_key ?f ?train"
  let ?k = "n_neighbors model"
  have len: "length (take ?k ?s) = ?k" using assms by simp
  have split: "?s = take ?k ?s @ drop ?k ?s" by simp
  have "mset ?train = mset (take ?k ?s) + mset (drop ?k ?s)"
    by (metis split mset_append mset_sort)
  then have sub: "mset (take ?k ?s) \<subseteq># mset ?train"
    and rest: "mset ?train - mset (take ?k ?s) = mset (drop ?k ?s)"
    by simp_all
  have "sorted (map ?f (take ?k ?s @ drop ?k ?s))"
    using sorted_sort_key[of ?f ?train] by simp
  then have "\<forall>t \<in> set (take ?k ?s). \<forall>s \<in> set (drop ?k ?s). ?f t \<le> ?f s"
    unfolding map_append sorted_append by auto
  then have "\<forall>t \<in> set (take ?k ?s). \<forall>s \<in># mset (drop ?k ?s). sqdist x (fst t) \<le> sqdist x (fst s)"
    by (auto simp: split_def)
  with len sub rest show ?thesis
    unfolding nearest_def kneighbors_def by simp
qed

lemma mode_most_frequent:
  assumes "ls \<noteq> []"
  shows "most_frequent ls (mode ls)"
proof -
  let ?S = "set (filter (\<lambda>l. list_all (\<lambda>l'. count_list ls l' \<le> count_list ls l) ls) ls)"
  let ?m = "Max (count_list ls ` set ls)"
  have "?m \<in> count_list ls ` set ls" using assms by (intro Max_in) auto
  then obtain l where l: "l \<in> set ls" "count_list ls l = ?m" by auto
  have "\<forall>l' \<in> set ls. count_list ls l' \<le> ?m" by simp
  with l have "l \<in> ?S" by (simp add: list_all_iff)
  then have "?S \<noteq> {}" by (metis empty_iff)
  then have "Min ?S \<in> ?S" by (intro Min_in) simp
  then have m: "mode ls \<in> ?S" by (simp add: mode_def)
  then have in_ls: "mode ls \<in> set ls"
    and ge: "\<forall>l' \<in> set ls. count_list ls l' \<le> count_list ls (mode ls)"
    by (simp_all add: list_all_iff)
  have "count_list ls l' \<le> count_list ls (mode ls)" for l'
  proof (cases "l' \<in> set ls")
    case True
    with ge show ?thesis by blast
  next
    case False
    then show ?thesis by (simp add: count_list_0_iff)
  qed
  with in_ls show ?thesis by (simp add: most_frequent_def)
qed

lemma length_kneighbors:
  "length (fit_X model) = length (fit_y model) \<Longrightarrow> n_neighbors model \<le> length (fit_X model) \<Longrightarrow>
   length (kneighbors model x) = n_neighbors model"
  by (simp add: kneighbors_def)

lemma count_matches:
  "length y_pred = length y_true \<Longrightarrow>
   length (filter (\<lambda>(p, t). p = t) (zip y_pred y_true)) = correct y_pred y_true"
  by (simp add: length_filter_conv_card correct_def) (rule arg_cong[where f = card], auto)



lemma digit_cases:
  assumes "d < 10"
  shows "is_digit (digit d) \<and> digit_value (digit d) = d"
proof -
  from assms have "d \<in> {0, 1, 2, 3, 4, 5, 6, 7, 8, 9}" by auto
  then show ?thesis
    by (elim insertE emptyE) (simp_all add: digit_def is_digit_def digit_value_def)
qed

lemma show_nat_digits: "list_all is_digit (show_nat n)"
proof (induction n rule: show_nat.induct)
  case (1 n)
  show ?case
  proof (cases "n < 10")
    case True
    then show ?thesis by (subst show_nat.simps) (simp add: digit_cases)
  next
    case False
    then have "list_all is_digit (show_nat (n div 10))" by (rule "1.IH")
    moreover have "n mod 10 < 10" by simp
    ultimately show ?thesis using False
      by (subst show_nat.simps) (simp add: digit_cases)
  qed
qed

lemma show_nat_nonempty: "show_nat n \<noteq> []"
  by (subst show_nat.simps) simp

lemma read_nat_snoc: "read_nat (s @ [c]) = 10 * read_nat s + digit_value c"
  by (simp add: read_nat_def)

lemma read_show_nat: "read_nat (show_nat n) = n"
proof (induction n rule: show_nat.induct)
  case (1 n)
  show ?case
  proof (cases "n < 10")
    case True
    then show ?thesis by (subst show_nat.simps) (simp add: read_nat_def digit_cases)
  next
    case False
    then have "read_nat (show_nat (n div 10)) = n div 10" by (rule "1.IH")
    moreover have "n mod 10 < 10" by simp
    ultimately show ?thesis using False
      by (subst show_nat.simps) (simp add: read_nat_snoc digit_cases)
  qed
qed


lemma round_half_even_nonneg: "0 \<le> x \<Longrightarrow> 0 \<le> round_half_even x"
  by (auto simp: round_half_even_def Let_def)

lemma round_half_even_close: "\<bar>of_int (round_half_even x) - x\<bar> \<le> 1 / 2"
proof -
  have "of_int \<lfloor>x\<rfloor> \<le> x" "x < of_int \<lfloor>x\<rfloor> + 1" by linarith+
  then show ?thesis by (auto simp: round_half_even_def Let_def)
qed


lemma two_digits_value:
  "read_nat [digit (n mod 100 div 10), digit (n mod 10)] = n mod 100"
proof -
  have b1: "n mod 100 div 10 < 10" and b2: "n mod 10 < 10" by simp_all
  have d1: "digit_value (digit (n mod 100 div 10)) = n mod 100 div 10"
    using digit_cases[OF b1] by (rule conjunct2)
  have d2: "digit_value (digit (n mod 10)) = n mod 10"
    using digit_cases[OF b2] by (rule conjunct2)
  have "read_nat [digit (n mod 100 div 10), digit (n mod 10)]
          = 10 * (10 * 0 + digit_value (digit (n mod 100 div 10))) + digit_value (digit (n mod 10))"
    by (simp only: read_nat_def foldl.simps)
  also have "\<dots> = 10 * (n mod 100 div 10) + n mod 10"
    by (simp only: d1 d2 mult_0_right add_0_left)
  finally have r: "read_nat [digit (n mod 100 div 10), digit (n mod 10)]
      = 10 * (n mod 100 div 10) + n mod 10" .
  have "n mod 100 mod 10 = n mod 10"
    by (simp add: mod_mod_cancel)
  moreover have "10 * (n mod 100 div 10) + n mod 100 mod 10 = n mod 100"
    by (rule mult_div_mod_eq)
  ultimately have "10 * (n mod 100 div 10) + n mod 10 = n mod 100"
    by (simp only:)
  with r show ?thesis by (simp only:)
qed

lemma hundredths: "(of_nat (n div 100) :: rat) + of_nat (n mod 100) / 100 = of_nat n / 100"
proof -
  have "(of_nat n :: rat) = of_nat (100 * (n div 100) + n mod 100)" by simp
  also have "\<dots> = 100 * of_nat (n div 100) + of_nat (n mod 100)"
    by (simp only: of_nat_add of_nat_mult of_nat_numeral)
  finally show ?thesis by simp
qed

lemma format_2f_nonneg:
  "0 \<le> x \<Longrightarrow>
   format_2f x =
     show_nat (nat (round_half_even (x * 100)) div 100) @ ''.''
     @ [digit (nat (round_half_even (x * 100)) mod 100 div 10), digit (nat (round_half_even (x * 100)) mod 10)]"
  unfolding format_2f_def Let_def by (simp only: abs_of_nonneg) simp

lemma format_2f_shape:
  assumes "0 \<le> x"
  shows "\<exists>whole d1 d2.
           format_2f x = whole @ ''.'' @ [d1, d2]
         \<and> whole \<noteq> [] \<and> list_all is_digit whole \<and> is_digit d1 \<and> is_digit d2
         \<and> of_nat (read_nat whole) + of_nat (read_nat [d1, d2]) / 100 = round2 x"
proof -
  define n where "n = nat (round_half_even (x * 100))"
  have nn: "0 \<le> round_half_even (x * 100)"
    using assms by (intro round_half_even_nonneg) simp
  let ?whole = "show_nat (n div 100)"
  let ?d1 = "digit (n mod 100 div 10)"
  let ?d2 = "digit (n mod 10)"
  have f: "format_2f x = ?whole @ ''.'' @ [?d1, ?d2]"
    unfolding n_def using assms by (rule format_2f_nonneg)
  have b1: "n mod 100 div 10 < 10" and b2: "n mod 10 < 10" by simp_all
  have "of_nat n / 100 = round2 x"
    using nn by (simp add: round2_def n_def)
  then have val: "of_nat (read_nat ?whole) + of_nat (read_nat [?d1, ?d2]) / 100 = round2 x"
    by (simp only: read_show_nat two_digits_value hundredths)
  from f show_nat_nonempty show_nat_digits digit_cases[OF b1, THEN conjunct1]
    digit_cases[OF b2, THEN conjunct1] val
  show ?thesis by (intro exI conjI)
qed


lemma test_size_150: "nat \<lceil>(1 / 5 :: rat) * of_nat 150\<rceil> = 30"
  by simp

lemma permutation_facts:
  assumes "mset permutation = mset [0..<150]"
  shows "length permutation = 150" and "list_all (\<lambda>i. i < 150) permutation"
proof -
  from assms have "size (mset permutation) = size (mset [0..<150])" by (rule arg_cong)
  then show "length permutation = 150" by simp
  from assms have "set permutation = set [0..<150]" by (rule mset_eq_setD)
  then show "list_all (\<lambda>i. i < 150) permutation" by (simp add: list_all_iff)
qed

lemma train_test_split_iris:
  assumes "length X = 150" "length y = 150" "mset permutation = mset [0..<150]"
  shows "train_test_split permutation X y (1 / 5) =
           Inr (safe_indexing X (drop 30 permutation), safe_indexing X (take 30 permutation),
                safe_indexing y (drop 30 permutation), safe_indexing y (take 30 permutation))"
proof -
  have n: "nat \<lceil>(1 / 5 :: rat) * of_nat (length X)\<rceil> = 30"
    unfolding assms(1) by (rule test_size_150)
  have "length (drop 30 permutation) = 120"
    using permutation_facts(1)[OF assms(3)] by simp
  then have t: "take 120 (drop 30 permutation) = drop 30 permutation" by simp
  show ?thesis
    unfolding train_test_split_def Let_def n
    using permutation_facts(2)[OF assms(3)] by (simp add: assms(1,2) t)
qed

lemma zip_safe_indexing:
  "zip (safe_indexing X ind) (safe_indexing y ind) = map (\<lambda>i. (X ! i, y ! i)) ind"
  by (induction ind) (simp_all add: safe_indexing_def)

lemma zip_by_index:
  assumes "length X = n" "length y = n"
  shows "map (\<lambda>i. (X ! i, y ! i)) [0..<n] = zip X y"
  using assms by (intro nth_equalityI) simp_all

lemma split_partition:
  assumes "length X = 150" "length y = 150" "mset permutation = mset [0..<150]"
  shows "mset (zip (safe_indexing X (drop 30 permutation)) (safe_indexing y (drop 30 permutation)))
       + mset (zip (safe_indexing X (take 30 permutation)) (safe_indexing y (take 30 permutation)))
       = mset (zip X y)"
proof -
  let ?h = "\<lambda>i. (X ! i, y ! i)"
  have p: "mset (drop 30 permutation) + mset (take 30 permutation) = mset permutation"
    by (metis add.commute append_take_drop_id mset_append)
  have "mset (map ?h (drop 30 permutation)) + mset (map ?h (take 30 permutation))
          = image_mset ?h (mset (drop 30 permutation) + mset (take 30 permutation))"
    by simp
  also have "\<dots> = image_mset ?h (mset permutation)" by (simp only: p)
  also have "\<dots> = image_mset ?h (mset [0..<150])" by (simp only: assms(3))
  also have "\<dots> = mset (map ?h [0..<150])" by simp
  also have "\<dots> = mset (zip X y)" by (simp only: zip_by_index[OF assms(1,2)])
  finally show ?thesis by (simp only: zip_safe_indexing)
qed

lemma length_safe_indexing: "length (safe_indexing xs ind) = length ind"
  by (simp add: safe_indexing_def)

lemma iris_run:
  assumes "length X = 150" "length y = 150" "mset permutation = mset [0..<150]"
  obtains X_train X_test y_train y_test model y_pred where
    "train_test_split permutation X y (1 / 5) = Inr (X_train, X_test, y_train, y_test)"
    "length X_test = 30" "length y_test = 30" "length X_train = 120" "length y_train = 120"
    "mset (zip X_train y_train) + mset (zip X_test y_test) = mset (zip X y)"
    "fit (KNeighborsClassifier 3) X_train y_train = Inr model"
    "n_neighbors model = 3" "fit_X model = X_train" "fit_y model = y_train"
    "predict model X_test = Inr y_pred" "length y_pred = 30"
    "\<forall>i < 30. y_pred ! i = mode (map snd (kneighbors model (X_test ! i)))"
    "score model X_test y_test = Inr (of_nat (correct y_pred y_test) / 30)"
    "iris_classifier (X, y) permutation =
       Inr [''Accuracy: '' @ format_2f (of_nat (correct y_pred y_test) / 30 * 100) @ ''%'']"
proof -
  define X_train where "X_train = safe_indexing X (drop 30 permutation)"
  define X_test where "X_test = safe_indexing X (take 30 permutation)"
  define y_train where "y_train = safe_indexing y (drop 30 permutation)"
  define y_test where "y_test = safe_indexing y (take 30 permutation)"
  define model where "model = \<lparr>n_neighbors = 3, fit_X = X_train, fit_y = y_train\<rparr>"
  define y_pred where "y_pred = map (\<lambda>x. mode (map snd (kneighbors model x))) X_test"
  note lp = permutation_facts(1)[OF assms(3)]
  have split: "train_test_split permutation X y (1 / 5) = Inr (X_train, X_test, y_train, y_test)"
    unfolding X_train_def X_test_def y_train_def y_test_def using assms by (rule train_test_split_iris)
  have l: "length X_test = 30" "length y_test = 30" "length X_train = 120" "length y_train = 120"
    by (simp_all add: X_test_def y_test_def X_train_def y_train_def length_safe_indexing lp)
  have part: "mset (zip X_train y_train) + mset (zip X_test y_test) = mset (zip X y)"
    unfolding X_train_def X_test_def y_train_def y_test_def using assms by (rule split_partition)
  have "X_train \<noteq> []" using l(3) by auto
  then have fit: "fit (KNeighborsClassifier 3) X_train y_train = Inr model"
    by (simp add: fit_def KNeighborsClassifier_def model_def l)
  have m: "n_neighbors model = 3" "fit_X model = X_train" "fit_y model = y_train"
    by (simp_all add: model_def)
  have "X_test \<noteq> []" using l(1) by auto
  then have pred: "predict model X_test = Inr y_pred"
    by (simp add: predict_def m l y_pred_def)
  have lpred: "length y_pred = 30" by (simp add: y_pred_def l)
  have each: "\<forall>i < 30. y_pred ! i = mode (map snd (kneighbors model (X_test ! i)))"
    by (simp add: y_pred_def l)
  have "length (filter (\<lambda>(p, t). p = t) (zip y_pred y_test)) = correct y_pred y_test"
    by (rule count_matches) (simp add: lpred l)
  then have sc: "score model X_test y_test = Inr (of_nat (correct y_pred y_test) / 30)"
    by (simp add: score_def pred lpred l)
  have out: "iris_classifier (X, y) permutation =
       Inr [''Accuracy: '' @ format_2f (of_nat (correct y_pred y_test) / 30 * 100) @ ''%'']"
    by (simp add: iris_classifier_def split fit sc)
  from split l part fit m pred lpred each sc out show thesis by (rule that)
qed


lemma sample_iris:
  "length sample_X = 150" "length sample_y = 150" "mset sample_permutation = mset [0..<150]"
  by (simp_all add: sample_X_def sample_y_def sample_permutation_def)

text \<open>
  Claim C4. On a data set of 150 samples and a permutation of its indices, the script
  splits, fits, scores and prints, each step on the result of the one before: the split
  succeeds and divides the samples into a training part and a test part, the test part
  being 20 percent of the samples; the classifier that is fitted holds three neighbours
  and exactly the training part; every predicted label is a most frequent label among
  three nearest training samples of the test sample; the score is the number of test
  samples whose predicted label equals the true label, divided by the number of test
  samples; and the line printed is made from that score.
\<close>

theorem iris_split_fit_score:
  assumes "length X = 150" "length y = 150" "mset permutation = mset [0..<150]"
  shows "\<exists>X_train X_test y_train y_test model y_pred.
           train_test_split permutation X y (1 / 5) = Inr (X_train, X_test, y_train, y_test)
         \<and> length X_test * 5 = length X \<and> length y_test = length X_test
         \<and> length y_train = length X_train
         \<and> mset (zip X_train y_train) + mset (zip X_test y_test) = mset (zip X y)
         \<and> fit (KNeighborsClassifier 3) X_train y_train = Inr model
         \<and> n_neighbors model = 3 \<and> fit_X model = X_train \<and> fit_y model = y_train
         \<and> predict model X_test = Inr y_pred \<and> length y_pred = length X_test
         \<and> (\<forall>i < length X_test. \<exists>nbrs.
               nearest 3 (zip X_train y_train) (X_test ! i) nbrs
             \<and> most_frequent (map snd nbrs) (y_pred ! i))
         \<and> score model X_test y_test = Inr (of_nat (correct y_pred y_test) / of_nat (length y_test))
         \<and> iris_classifier (X, y) permutation =
              Inr [''Accuracy: '' @ format_2f (of_nat (correct y_pred y_test) / of_nat (length y_test) * 100) @ ''%'']"
proof -
  from assms obtain X_train X_test y_train y_test model y_pred where r:
    "train_test_split permutation X y (1 / 5) = Inr (X_train, X_test, y_train, y_test)"
    "length X_test = 30" "length y_test = 30" "length X_train = 120" "length y_train = 120"
    "mset (zip X_train y_train) + mset (zip X_test y_test) = mset (zip X y)"
    "fit (KNeighborsClassifier 3) X_train y_train = Inr model"
    "n_neighbors model = 3" "fit_X model = X_train" "fit_y model = y_train"
    "predict model X_test = Inr y_pred" "length y_pred = 30"
    "\<forall>i < 30. y_pred ! i = mode (map snd (kneighbors model (X_test ! i)))"
    "score model X_test y_test = Inr (of_nat (correct y_pred y_test) / 30)"
    "iris_classifier (X, y) permutation =
       Inr [''Accuracy: '' @ format_2f (of_nat (correct y_pred y_test) / 30 * 100) @ ''%'']"
    by (rule iris_run)
  have lens: "length (fit_X model) = length (fit_y model)" "n_neighbors model \<le> length (fit_X model)"
    by (simp_all add: r)
  have nn: "\<forall>i < length X_test. \<exists>nbrs.
               nearest 3 (zip X_train y_train) (X_test ! i) nbrs
             \<and> most_frequent (map snd nbrs) (y_pred ! i)"
  proof (intro allI impI)
    fix i assume "i < length X_test"
    then have i: "i < 30" by (simp add: r)
    let ?nbrs = "kneighbors model (X_test ! i)"
    have "nearest 3 (zip X_train y_train) (X_test ! i) ?nbrs"
      using kneighbors_nearest[OF lens, of "X_test ! i"] by (simp add: r)
    moreover have "length ?nbrs = 3"
      using length_kneighbors[OF lens, of "X_test ! i"] by (simp add: r)
    then have "map snd ?nbrs \<noteq> []" by auto
    then have "most_frequent (map snd ?nbrs) (mode (map snd ?nbrs))" by (rule mode_most_frequent)
    then have "most_frequent (map snd ?nbrs) (y_pred ! i)" using r(13) i by simp
    ultimately show "\<exists>nbrs. nearest 3 (zip X_train y_train) (X_test ! i) nbrs
             \<and> most_frequent (map snd nbrs) (y_pred ! i)" by blast
  qed
  have a: "length X_test * 5 = length X" "length y_test = length X_test"
    "length y_train = length X_train" "length y_pred = length X_test"
    by (simp_all add: r assms)
  have s: "score model X_test y_test = Inr (of_nat (correct y_pred y_test) / of_nat (length y_test))"
    by (simp add: r)
  have out: "iris_classifier (X, y) permutation =
      Inr [''Accuracy: '' @ format_2f (of_nat (correct y_pred y_test) / of_nat (length y_test) * 100) @ ''%'']"
    by (simp add: r)
  from r(1) a(1,2,3) r(6,7,8,9,10,11) a(4) nn s out show ?thesis
    by (intro exI conjI)
qed

theorem iris_split_fit_score_witness:
  "\<exists>X_train X_test y_train y_test model y_pred.
           train_test_split sample_permutation sample_X sample_y (1 / 5) = Inr (X_train, X_test, y_train, y_test)
         \<and> length X_test * 5 = length sample_X \<and> length y_test = length X_test
         \<and> length y_train = length X_train
         \<and> mset (zip X_train y_train) + mset (zip X_test y_test) = mset (zip sample_X sample_y)
         \<and> fit (KNeighborsClassifier 3) X_train y_train = Inr model
         \<and> n_neighbors model = 3 \<and> fit_X model = X_train \<and> fit_y model = y_train
         \<and> predict model X_test = Inr y_pred \<and> length y_pred = length X_test
         \<and> (\<forall>i < length X_test. \<exists>nbrs.
               nearest 3 (zip X_train y_train) (X_test ! i) nbrs
             \<and> most_frequent (map snd nbrs) (y_pred ! i))
         \<and> score model X_test y_test = Inr (of_nat (correct y_pred y_test) / of_nat (length y_test))
         \<and> iris_classifier (sample_X, sample_y) sample_permutation =
              Inr [''Accuracy: '' @ format_2f (of_nat (correct y_pred y_test) / of_nat (length y_test) * 100) @ ''%'']"
  using sample_iris by (rule iris_split_fit_score)

text \<open>
  Claim C7. The script takes no input besides the library's data, and on a data set of 150
  samples it writes exactly one line: \<^verbatim>\<open>Accuracy: \<close>, the digits of the integer
  part, a point, two digits and a percent sign, where the number written is the accuracy
  percentage rounded to two decimal places (at most 0.005 away from it).
\<close>

theorem iris_prints_one_line:
  assumes "length X = 150" "length y = 150" "mset permutation = mset [0..<150]"
  shows "\<exists>out whole d1 d2 model X_train X_test y_train y_test accuracy.
           iris_classifier (X, y) permutation = Inr out
         \<and> length out = 1
         \<and> out = [''Accuracy: '' @ whole @ ''.'' @ [d1, d2] @ ''%'']
         \<and> whole \<noteq> [] \<and> list_all is_digit whole \<and> is_digit d1 \<and> is_digit d2
         \<and> train_test_split permutation X y (1 / 5) = Inr (X_train, X_test, y_train, y_test)
         \<and> fit (KNeighborsClassifier 3) X_train y_train = Inr model
         \<and> score model X_test y_test = Inr accuracy
         \<and> of_nat (read_nat whole) + of_nat (read_nat [d1, d2]) / 100 = round2 (accuracy * 100)
         \<and> \<bar>round2 (accuracy * 100) - accuracy * 100\<bar> \<le> 1 / 200"
proof -
  from assms obtain X_train X_test y_train y_test model y_pred where r:
    "train_test_split permutation X y (1 / 5) = Inr (X_train, X_test, y_train, y_test)"
    "length X_test = 30" "length y_test = 30" "length X_train = 120" "length y_train = 120"
    "mset (zip X_train y_train) + mset (zip X_test y_test) = mset (zip X y)"
    "fit (KNeighborsClassifier 3) X_train y_train = Inr model"
    "n_neighbors model = 3" "fit_X model = X_train" "fit_y model = y_train"
    "predict model X_test = Inr y_pred" "length y_pred = 30"
    "\<forall>i < 30. y_pred ! i = mode (map snd (kneighbors model (X_test ! i)))"
    "score model X_test y_test = Inr (of_nat (correct y_pred y_test) / 30)"
    "iris_classifier (X, y) permutation =
       Inr [''Accuracy: '' @ format_2f (of_nat (correct y_pred y_test) / 30 * 100) @ ''%'']"
    by (rule iris_run)
  define accuracy :: rat where "accuracy = of_nat (correct y_pred y_test) / 30"
  have "0 \<le> accuracy * 100" by (simp add: accuracy_def)
  then obtain whole d1 d2 where f: "format_2f (accuracy * 100) = whole @ ''.'' @ [d1, d2]"
    and w: "whole \<noteq> []" "list_all is_digit whole" "is_digit d1" "is_digit d2"
    and v: "of_nat (read_nat whole) + of_nat (read_nat [d1, d2]) / 100 = round2 (accuracy * 100)"
    using format_2f_shape[of "accuracy * 100"] by blast
  define out where "out = [''Accuracy: '' @ whole @ ''.'' @ [d1, d2] @ ''%'']"
  have o: "iris_classifier (X, y) permutation = Inr out"
    using r(15) f by (simp add: accuracy_def out_def)
  have l: "length out = 1" by (simp add: out_def)
  have s: "score model X_test y_test = Inr accuracy" by (simp add: r accuracy_def)
  have c: "\<bar>round2 (accuracy * 100) - accuracy * 100\<bar> \<le> 1 / 200"
    using round_half_even_close[of "accuracy * 100 * 100"] by (simp add: round2_def field_simps)
  from o l out_def w r(1,7) s v c show ?thesis
    by (intro exI conjI)
qed

theorem iris_prints_one_line_witness:
  "\<exists>out whole d1 d2 model X_train X_test y_train y_test accuracy.
           iris_classifier (sample_X, sample_y) sample_permutation = Inr out
         \<and> length out = 1
         \<and> out = [''Accuracy: '' @ whole @ ''.'' @ [d1, d2] @ ''%'']
         \<and> whole \<noteq> [] \<and> list_all is_digit whole \<and> is_digit d1 \<and> is_digit d2
         \<and> train_test_split sample_permutation sample_X sample_y (1 / 5) = Inr (X_train, X_test, y_train, y_test)
         \<and> fit (KNeighborsClassifier 3) X_train y_train = Inr model
         \<and> score model X_test y_test = Inr accuracy
         \<and> of_nat (read_nat whole) + of_nat (read_nat [d1, d2]) / 100 = round2 (accuracy * 100)
         \<and> \<bar>round2 (accuracy * 100) - accuracy * 100\<bar> \<le> 1 / 200"
  using sample_iris by (rule iris_prints_one_line)

section \<open>The printed percentage\<close>



















end
